theory Spec2Isabelle
  imports Complex_Main "HOL-Library.Word"
begin

text \<open>
  A shallow embedding of the numerical core of the ddafa cone-beam reconstruction: the
  Feldkamp scheduler, the volume geometry with its region of interest, the weighting
  kernel, the construction of the ramp filter and the back-projection kernel with its
  bilinear interpolation.

  Conventions. \<^verbatim>\<open>std::size_t\<close> values are \<open>nat\<close> where no operation on them can wrap;
  \<^verbatim>\<open>std::uint32_t\<close> values are \<open>32 word\<close>, or \<open>nat\<close> with the reduction modulo
  \<open>2 ^ 32\<close> written out. \<^verbatim>\<open>float\<close> arithmetic is idealised: geometry, weights and filter
  coefficients are computed over \<open>real\<close> (no rounding); the back-projection kernel, where
  the IEEE special values matter, is computed over the type \<open>fl\<close> below, which adds the
  infinities and NaN to the exact reals. A second version of the kernel has a rounding
  function at every arithmetic operation.
\<close>

section \<open>Scheduler: chunks per device\<close>

text \<open>
  \<^verbatim>\<open>FeldkampScheduler::calculate_volumes_per_device\<close> holds a recursive lambda
  \<^verbatim>\<open>calcVolumeSizePerDev(volume_size, volume_count, dev_mem)\<close>: while the chunk is at
  least as large as the device memory, the size is halved and the count doubled.
  \<^verbatim>\<open>volume_size\<close> and \<^verbatim>\<open>dev_mem\<close> are \<^verbatim>\<open>std::size_t\<close> (halving never wraps, so
  they are \<open>nat\<close>), \<^verbatim>\<open>*volume_count\<close> is a \<^verbatim>\<open>std::uint32_t\<close>: its doubling is taken
  modulo \<open>2 ^ 32\<close>. With \<^verbatim>\<open>dev_mem = 0\<close> the recursion never ends, so the function is
  partial and not returning is the value \<open>None\<close>.
\<close>

partial_function (option) calcVolumeSizePerDev :: "nat \<Rightarrow> nat \<Rightarrow> nat \<Rightarrow> (nat \<times> nat) option" where
  "calcVolumeSizePerDev volume_size volume_count dev_mem =
     (if volume_size \<ge> dev_mem
      then calcVolumeSizePerDev (volume_size div 2) ((volume_count * 2) mod 2 ^ 32) dev_mem
      else Some (volume_size, volume_count))"

declare calcVolumeSizePerDev.simps [code]

text \<open>
  The body of the loop over the devices: \<^verbatim>\<open>vol_size_dev = volume_bytes_\<close> (already divided
  by the number of devices), \<^verbatim>\<open>vol_count_dev = 1u\<close>, then the halving. The result is the
  pair (final chunk size, chunk count) of one device.
\<close>

definition volumes_for_device :: "nat \<Rightarrow> nat \<Rightarrow> nat \<Rightarrow> (nat \<times> nat) option" where
  "volumes_for_device volume_bytes devices total_global_mem =
     calcVolumeSizePerDev (volume_bytes div devices) 1 total_global_mem"

text \<open>
  \<^verbatim>\<open>calculate_volumes_per_device\<close> itself: \<^verbatim>\<open>volume_bytes_ /= devices_\<close>, then one halving
  per device against its \<^verbatim>\<open>totalGlobalMem\<close>. The devices are the list of their memory
  sizes, \<^verbatim>\<open>devices_\<close> is its length; the result is \<^verbatim>\<open>volumes_per_device_\<close> as the list of
  the chunk counts, device 0 first, and \<open>None\<close> when the halving of some device does not
  return.
\<close>

fun volumes_per_device_loop :: "nat \<Rightarrow> nat \<Rightarrow> nat list \<Rightarrow> nat list option" where
  "volumes_per_device_loop volume_bytes devices [] = Some []"
| "volumes_per_device_loop volume_bytes devices (mem # mems) =
     (case volumes_for_device volume_bytes devices mem of
        None \<Rightarrow> None
      | Some (vol_size_dev, vol_count_dev) \<Rightarrow>
          (case volumes_per_device_loop volume_bytes devices mems of
             None \<Rightarrow> None
           | Some counts \<Rightarrow> Some (vol_count_dev # counts)))"

definition calculate_volumes_per_device :: "nat \<Rightarrow> nat list \<Rightarrow> nat list option" where
  "calculate_volumes_per_device volume_bytes total_global_mems =
     volumes_per_device_loop volume_bytes (length total_global_mems) total_global_mems"

text \<open>
  \<^verbatim>\<open>volume_count_\<close> is a \<^verbatim>\<open>std::uint32_t\<close> that accumulates the chunk counts of all
  devices.
\<close>

definition volume_count :: "nat list \<Rightarrow> nat" where
  "volume_count volumes_per_device = sum_list volumes_per_device mod 2 ^ 32"

section \<open>Scheduler: sub-volume offsets and extents\<close>

text \<open>
  \<^verbatim>\<open>calculate_subvolume_offsets\<close>: with \<^verbatim>\<open>vol_offset = dim_z / volume_count_\<close>, chunk \<open>c\<close> of
  device \<open>i\<close> gets the offset \<^verbatim>\<open>i * vol_count_dev * vol_offset + c * vol_offset\<close>, where
  \<^verbatim>\<open>vol_count_dev\<close> is the chunk count of device \<open>i\<close> itself.
\<close>

definition offset_per_volume :: "nat \<Rightarrow> nat list \<Rightarrow> nat \<Rightarrow> nat \<Rightarrow> nat" where
  "offset_per_volume dim_z volumes_per_device i c =
     (let vol_offset = dim_z div volume_count volumes_per_device;
          vol_count_dev = volumes_per_device ! i
      in i * vol_count_dev * vol_offset + c * vol_offset)"

text \<open>
  \<^verbatim>\<open>Feldkamp::create_volumes\<close>: every sub-volume of a device has the depth
  \<^verbatim>\<open>(dim_z / devices_) / vol_on_device\<close>.
\<close>

definition subvol_dev_size :: "nat \<Rightarrow> nat \<Rightarrow> nat \<Rightarrow> nat" where
  "subvol_dev_size dim_z devices vol_on_device = (dim_z div devices) div vol_on_device"

text \<open>
  The sub-volumes of a plan in plan order (device by device, chunk by chunk), each as the
  pair of its z-offset and its local z-extent.
\<close>

definition sub_volumes :: "nat \<Rightarrow> nat list \<Rightarrow> (nat \<times> nat) list" where
  "sub_volumes dim_z volumes_per_device =
     concat (map (\<lambda>i. map (\<lambda>c. (offset_per_volume dim_z volumes_per_device i c,
                                  subvol_dev_size dim_z (length volumes_per_device)
                                    (volumes_per_device ! i)))
                         [0..<volumes_per_device ! i])
                 [0..<length volumes_per_device])"

text \<open>The z-slices that a sub-volume occupies.\<close>

definition slab :: "nat \<times> nat \<Rightarrow> nat set" where
  "slab v = {fst v..<fst v + snd v}"

section \<open>Scheduler: volume geometry\<close>

text \<open>
  \<^verbatim>\<open>common::Geometry\<close>, the detector description read by the scheduler, the weighting and
  the filter of the \<^verbatim>\<open>cuda/\<close> sources. The pixel counts are unsigned integers, everything
  else is a \<^verbatim>\<open>float\<close>.
\<close>

record Geometry =
  det_pixels_row :: nat
  det_pixels_column :: nat
  det_pixel_size_horiz :: real
  det_pixel_size_vert :: real
  det_offset_horiz :: real
  det_offset_vert :: real
  dist_src :: real
  dist_det :: real

text \<open>\<^verbatim>\<open>FeldkampScheduler::VolumeGeometry\<close>: three \<^verbatim>\<open>std::size_t\<close> and three \<^verbatim>\<open>float\<close>.\<close>

record VolumeGeometry =
  dim_x :: nat
  dim_y :: nat
  dim_z :: nat
  voxel_size_x :: real
  voxel_size_y :: real
  voxel_size_z :: real

text \<open>
  \<^verbatim>\<open>static_cast\<close> of a non-negative \<^verbatim>\<open>float\<close> to an unsigned integer truncates. (On a
  negative value or one out of range the cast is undefined in C++; the model yields \<open>0\<close> on
  a negative value.)
\<close>

definition float_to_unsigned :: "real \<Rightarrow> nat" where
  "float_to_unsigned x = nat \<lfloor>x\<rfloor>"

text \<open>The member \<^verbatim>\<open>dist_sd_\<close>, set by the constructor of the scheduler.\<close>

definition dist_sd :: "Geometry \<Rightarrow> real" where
  "dist_sd geo = \<bar>dist_det geo\<bar> + \<bar>dist_src geo\<bar>"

definition calculate_volume_geo :: "Geometry \<Rightarrow> VolumeGeometry" where
  "calculate_volume_geo geo =
     (let N_h = real (det_pixels_row geo);
          d_h = det_pixel_size_horiz geo;
          delta_h = det_offset_horiz geo * d_h;
          alpha = arctan ((((N_h * d_h) / 2) + \<bar>delta_h\<bar>) / dist_sd geo);
          r = \<bar>dist_src geo\<bar> * sin alpha;
          vx = r / ((((N_h * d_h) / 2) + \<bar>delta_h\<bar>) / d_h);
          dx = float_to_unsigned ((2 * r) / vx);
          N_v = real (det_pixels_column geo);
          d_v = det_pixel_size_vert geo;
          delta_v = det_offset_vert geo * d_v;
          dz = float_to_unsigned (((N_v * d_v) / 2 + \<bar>delta_v\<bar>)
                                  * (\<bar>dist_src geo\<bar> / dist_sd geo) * (2 / vx))
      in \<lparr>dim_x = dx, dim_y = dx, dim_z = dz,
          voxel_size_x = vx, voxel_size_y = vx, voxel_size_z = vx\<rparr>)"

definition calculate_volume_height_mm :: "VolumeGeometry \<Rightarrow> real" where
  "calculate_volume_height_mm vol_geo = real (dim_z vol_geo) * voxel_size_z vol_geo"

text \<open>\<^verbatim>\<open>sizeof(T)\<close> is 4 for the \<^verbatim>\<open>float\<close> instance of the scheduler.\<close>

definition calculate_volume_bytes :: "VolumeGeometry \<Rightarrow> nat" where
  "calculate_volume_bytes vol_geo = dim_x vol_geo * dim_y vol_geo * dim_z vol_geo * 4"

section \<open>Scheduler: sub-projection borders\<close>

text \<open>
  One iteration of the loop of \<^verbatim>\<open>calculate_subprojection_borders\<close>, for sub-volume \<open>n\<close> of
  \<open>N = volume_count_\<close>: the pair pushed to \<^verbatim>\<open>subproj_dims_\<close>. \<open>volume_height\<close> and \<open>vol_geo\<close>
  are the members \<^verbatim>\<open>volume_height_\<close> and \<^verbatim>\<open>vol_geo_\<close>.
\<close>

definition subprojection_border ::
  "Geometry \<Rightarrow> VolumeGeometry \<Rightarrow> real \<Rightarrow> nat \<Rightarrow> nat \<Rightarrow> nat \<times> nat" where
  "subprojection_border geo vol_geo volume_height N n =
     (let delta_v = det_offset_vert geo * det_pixel_size_vert geo;
          d_v = det_pixel_size_vert geo;
          N_v = real (det_pixels_column geo);
          d_src = dist_src geo;
          r_max = (real (dim_x vol_geo) * voxel_size_x vol_geo) / 2;
          top = - (volume_height / 2) + (real n / real N) * volume_height;
          bottom = - (volume_height / 2) + (real (n + 1) / real N) * volume_height;
          top_proj_virt = top * dist_sd geo / (\<bar>d_src\<bar> + (if top < 0 then - r_max else r_max));
          bottom_proj_virt =
            bottom * dist_sd geo / (\<bar>d_src\<bar> + (if bottom < 0 then r_max else - r_max));
          top_proj_real = 0 - ((N_v * d_v) / 2) - delta_v + (d_v / 2);
          bottom_proj_real = top_proj_real + N_v * d_v - d_v;
          top_proj = (if top_proj_virt > bottom_proj_real then bottom_proj_real
                      else if top_proj_virt < top_proj_real then top_proj_real
                      else top_proj_virt);
          bottom_proj = (if bottom_proj_virt < top_proj_real then top_proj_real
                         else if bottom_proj_virt > bottom_proj_real then bottom_proj_real
                         else bottom_proj_virt);
          start_row0 = real_of_int \<lfloor>(((top_proj) + ((N_v * d_v) / 2) + delta_v) / d_v) - (1 / 2)\<rfloor>;
          bottom_row0 =
            real_of_int \<lceil>(((bottom_proj) + ((N_v * d_v) / 2) + delta_v) / d_v) - (1 / 2)\<rceil>;
          start_row = (if start_row0 < 0 then 0 else start_row0);
          bottom_row = (if bottom_row0 \<ge> N_v then N_v - 1 else bottom_row0)
      in (float_to_unsigned start_row, float_to_unsigned bottom_row))"

text \<open>
  The scheduler's constructor up to the borders: geometry, height, then the border of
  sub-volume \<open>n\<close> for a total of \<open>N\<close> chunks.
\<close>

definition scheduler_subproj_dims :: "Geometry \<Rightarrow> nat \<Rightarrow> nat \<Rightarrow> nat \<times> nat" where
  "scheduler_subproj_dims geo N n =
     (let vol_geo = calculate_volume_geo geo
      in subprojection_border geo vol_geo (calculate_volume_height_mm vol_geo) N n)"

text \<open>The geometry the core is handed: a detector with pixels of positive size, and a
  source that is not in the rotation axis.\<close>

definition valid_geometry :: "Geometry \<Rightarrow> bool" where
  "valid_geometry geo \<longleftrightarrow>
     0 < det_pixels_row geo \<and> 0 < det_pixels_column geo \<and>
     0 < det_pixel_size_horiz geo \<and> 0 < det_pixel_size_vert geo \<and> dist_src geo \<noteq> 0"

section \<open>Volume geometry and region of interest\<close>

text \<open>
  The detector description of the newer sources (\<^verbatim>\<open>detector_geometry\<close>), as far as the
  functions below read it, and their \<^verbatim>\<open>volume_geometry\<close>: three \<^verbatim>\<open>std::uint32_t\<close>
  dimensions and three \<^verbatim>\<open>float\<close> voxel sizes.
\<close>

record detector_geometry =
  n_row :: nat
  n_col :: nat
  l_px_row :: real
  l_px_col :: real
  delta_s :: real
  delta_t :: real
  d_so :: real
  d_od :: real

record volume_geometry =
  dim_x :: "32 word"
  dim_y :: "32 word"
  dim_z :: "32 word"
  l_vx_x :: real
  l_vx_y :: real
  l_vx_z :: real


text \<open>The two lambdas of \<^verbatim>\<open>apply_roi\<close>.\<close>

definition check_coords :: "32 word \<Rightarrow> 32 word \<Rightarrow> bool" where
  "check_coords low high \<longleftrightarrow> low < high"

definition check_dims :: "32 word \<Rightarrow> 32 word \<Rightarrow> bool" where
  "check_dims updated old \<longleftrightarrow> updated \<le> old"

text \<open>
  The updated dimension of one axis: \<^verbatim>\<open>high - low\<close>, incremented when \<^verbatim>\<open>low == 0\<close>. Both
  operations are on \<^verbatim>\<open>std::uint32_t\<close>; the increment wraps to \<open>0\<close> for \<open>low = 0\<close> and
  \<open>high = 2 ^ 32 - 1\<close>.
\<close>

definition roi_dim :: "32 word \<Rightarrow> 32 word \<Rightarrow> 32 word" where
  "roi_dim low high = (let d = high - low in if low = 0 then d + 1 else d)"

definition apply_roi ::
  "volume_geometry \<Rightarrow> 32 word \<Rightarrow> 32 word \<Rightarrow> 32 word \<Rightarrow> 32 word \<Rightarrow> 32 word \<Rightarrow> 32 word
     \<Rightarrow> volume_geometry" where
  "apply_roi vol_geo x1 x2 y1 y2 z1 z2 =
     (if check_coords x1 x2 \<and> check_coords y1 y2 \<and> check_coords z1 z2
      then (let dx = roi_dim x1 x2; dy = roi_dim y1 y2; dz = roi_dim z1 z2
            in if check_dims dx (volume_geometry.dim_x vol_geo)
                  \<and> check_dims dy (volume_geometry.dim_y vol_geo)
                  \<and> check_dims dz (volume_geometry.dim_z vol_geo)
               then vol_geo\<lparr>volume_geometry.dim_x := dx, volume_geometry.dim_y := dy,
                             volume_geometry.dim_z := dz\<rparr>
               else vol_geo)
      else vol_geo)"

section \<open>Ramp filter construction\<close>

text \<open>
  C integer division and remainder truncate towards zero.
\<close>

definition c_div :: "int \<Rightarrow> int \<Rightarrow> int" where
  "c_div a b = sgn a * sgn b * (\<bar>a\<bar> div \<bar>b\<bar>)"

definition c_mod :: "int \<Rightarrow> int \<Rightarrow> int" where
  "c_mod a b = sgn a * (\<bar>a\<bar> mod \<bar>b\<bar>)"

text \<open>
  The constructor \<^verbatim>\<open>CUDAFilter::CUDAFilter\<close>:
  \<^verbatim>\<open>filter_length_ = 2 * pow(2, ceil(log2(float(geo.det_pixels_column))))\<close>. For a detector
  without columns \<^verbatim>\<open>log2\<close> is minus infinity and the length is 0.
\<close>

definition filter_length :: "nat \<Rightarrow> nat" where
  "filter_length pixels_column =
     (if pixels_column = 0 then 0
      else float_to_unsigned (2 * 2 powr real_of_int \<lceil>log 2 (real pixels_column)\<rceil>))"

text \<open>
  \<^verbatim>\<open>CUDAFilter::filterProcessor\<close> fills the host array
  \<^verbatim>\<open>std::int32_t j_host_buffer[filter_length_]\<close>:
  \<^verbatim>\<open>
  std::int32_t j = -((filter_length_signed - 2) / 2);
  for(std::size_t k = 0; k <= (filter_length_); ++k, ++j)
      j_host_buffer[k] = j;
  \<close>
  The state of the loop is the array and the list of the writes that fell outside of it
  (index and value, in order): a write at an index below the length updates the array, any
  other write is recorded. \<open>j\<close> stays between \<open>- L / 2\<close> and \<open>L / 2 + 2\<close>, far from the
  limits of \<^verbatim>\<open>std::int32_t\<close>, and is an \<open>int\<close>.
\<close>

record j_buffer =
  cells :: "int list"
  out_of_bounds :: "(nat \<times> int) list"

definition write_j :: "j_buffer \<Rightarrow> nat \<Rightarrow> int \<Rightarrow> j_buffer" where
  "write_j b k v =
     (if k < length (cells b) then b\<lparr>cells := (cells b)[k := v]\<rparr>
      else b\<lparr>out_of_bounds := out_of_bounds b @ [(k, v)]\<rparr>)"

function fill_j :: "nat \<Rightarrow> nat \<Rightarrow> int \<Rightarrow> j_buffer \<Rightarrow> j_buffer" where
  "fill_j filter_len k j b =
     (if k \<le> filter_len then fill_j filter_len (k + 1) (j + 1) (write_j b k j) else b)"
  by pat_completeness auto
termination
  by (relation "measure (\<lambda>(filter_len, k, j, b). filter_len + 1 - k)") auto

declare fill_j.simps [simp del]

definition j_start :: "nat \<Rightarrow> int" where
  "j_start filter_len = - (c_div (int filter_len - 2) 2)"

text \<open>The array before the loop is uninitialised: its contents \<open>garbage\<close> are a parameter.\<close>

definition j_host_buffer :: "nat \<Rightarrow> int list \<Rightarrow> j_buffer" where
  "j_host_buffer filter_len garbage =
     fill_j filter_len 0 (j_start filter_len)
       \<lparr>cells = take filter_len (garbage @ replicate filter_len 0), out_of_bounds = []\<rparr>"

text \<open>
  The kernel \<^verbatim>\<open>createFilter\<close>, one thread per index \<open>x\<close> below \<^verbatim>\<open>size\<close> (here \<open>sz\<close>):
  \<^verbatim>\<open>
  if(j[x] == 0)            r[x] = (1.f / 8.f) * (1.f / powf(tau, 2));
  else if(j[x] % 2 == 0)   r[x] = 0.f;
  else  r[x] = (-1.f / (2.f * powf(j[x], 2) * powf(M_PI, 2) * powf(tau, 2)));
  \<close>
\<close>

definition createFilter_thread :: "int \<Rightarrow> real \<Rightarrow> real" where
  "createFilter_thread jx tau =
     (if jx = 0 then (1 / 8) * (1 / tau\<^sup>2)
      else if c_mod jx 2 = 0 then 0
      else (- 1 / (2 * (real_of_int jx)\<^sup>2 * pi\<^sup>2 * tau\<^sup>2)))"

definition createFilter :: "int list \<Rightarrow> nat \<Rightarrow> real \<Rightarrow> real list" where
  "createFilter j sz tau = map (\<lambda>x. createFilter_thread (j ! x) tau) [0..<sz]"

text \<open>
  \<^verbatim>\<open>filterProcessor\<close> copies \<^verbatim>\<open>filter_length_\<close> entries of the host array to the device
  and launches \<^verbatim>\<open>createFilter\<close> on them with \<^verbatim>\<open>tau_ = geo.det_pixel_size_horiz\<close>: the
  filter \<^verbatim>\<open>rs_[device]\<close>.
\<close>

definition filter_r :: "Geometry \<Rightarrow> int list \<Rightarrow> real list" where
  "filter_r geo garbage =
     (let filter_len = filter_length (det_pixels_column geo);
          j_dev_buffer = take filter_len (cells (j_host_buffer filter_len garbage))
      in createFilter j_dev_buffer filter_len (det_pixel_size_horiz geo))"

section \<open>Weighting stage\<close>

text \<open>
  A projection: its pixel counts and its buffer. The buffer is pitched device memory; it is
  modelled as a function from the row \<open>t\<close> and the column \<open>s\<close> to the pixel, which also
  covers the padding behind every row.
\<close>

type_synonym image = "nat \<Rightarrow> nat \<Rightarrow> real"

record projection =
  width :: nat
  height :: nat
  ptr :: image

text \<open>
  One thread \<open>(s, t)\<close> of \<^verbatim>\<open>weighting_kernel\<close>. The stage passes the same buffer as
  \<^verbatim>\<open>input\<close> and as \<^verbatim>\<open>output\<close>, so the thread updates the image in place.
  \<^verbatim>\<open>rsqrtf(x)\<close> is \<open>1 / sqrt x\<close> and \<^verbatim>\<open>powf(x, 2)\<close> is \<open>x\<^sup>2\<close>.
\<close>

definition weighting_kernel ::
  "image \<Rightarrow> nat \<Rightarrow> nat \<Rightarrow> real \<Rightarrow> real \<Rightarrow> real \<Rightarrow> real \<Rightarrow> real \<Rightarrow> nat \<times> nat \<Rightarrow> image" where
  "weighting_kernel img rows cols h_min v_min d_sd px_row px_col st =
     (let s = fst st; t = snd st
      in if (s < rows) \<and> (t < cols)
         then (let val = img t s;
                   h_s = (px_row / 2) + real s * px_row + h_min;
                   v_t = (px_col / 2) + real t * px_col + v_min;
                   w_st = d_sd * (1 / sqrt (d_sd\<^sup>2 + h_s\<^sup>2 + v_t\<^sup>2))
               in img(t := (img t)(s := val * w_st)))
         else img)"

text \<open>
  A kernel launch over a grid of \<open>gx \<times> gy\<close> threads. The launcher rounds the requested
  extent up to whole blocks, so the grid is at least as large as the projection. Every
  thread touches its own pixel only; the threads are run one after the other.
\<close>

definition launch_threads :: "nat \<Rightarrow> nat \<Rightarrow> (nat \<times> nat) list" where
  "launch_threads gx gy = List.product [0..<gx] [0..<gy]"

definition weight ::
  "projection \<Rightarrow> nat \<Rightarrow> nat \<Rightarrow> real \<Rightarrow> real \<Rightarrow> real \<Rightarrow> real \<Rightarrow> real \<Rightarrow> projection" where
  "weight p gx gy h_min v_min d_sd px_row px_col =
     p\<lparr>ptr := fold (\<lambda>st img. weighting_kernel img (width p) (height p)
                                h_min v_min d_sd px_row px_col st)
                    (launch_threads gx gy) (ptr p)\<rparr>"

text \<open>The members of \<^verbatim>\<open>weighting_stage\<close> that \<^verbatim>\<open>assign_task\<close> sets: \<^verbatim>\<open>det_geo_\<close>,
  \<^verbatim>\<open>h_min_\<close>, \<^verbatim>\<open>v_min_\<close> and \<^verbatim>\<open>d_sd_\<close> (an identifier cannot end in an underscore here, so
  the members carry the prefix \<open>m_\<close>).\<close>

record weighting_stage =
  m_det_geo :: detector_geometry
  m_h_min :: real
  m_v_min :: real
  m_d_sd :: real

definition assign_task :: "detector_geometry \<Rightarrow> weighting_stage" where
  "assign_task det_geo =
     (let n_row_f = real (n_row det_geo);
          n_col_f = real (n_col det_geo)
      in \<lparr>m_det_geo = det_geo,
          m_h_min = delta_s det_geo * l_px_row det_geo - n_row_f * l_px_row det_geo / 2,
          m_v_min = delta_t det_geo * l_px_col det_geo - n_col_f * l_px_col det_geo / 2,
          m_d_sd = \<bar>d_so det_geo\<bar> + \<bar>d_od det_geo\<bar>\<rparr>)"

text \<open>The body of the loop of \<^verbatim>\<open>weighting_stage::run\<close> for one valid projection.\<close>

definition weighting_stage_run :: "weighting_stage \<Rightarrow> nat \<Rightarrow> nat \<Rightarrow> projection \<Rightarrow> projection" where
  "weighting_stage_run stage gx gy p =
     weight p gx gy (m_h_min stage) (m_v_min stage) (m_d_sd stage)
       (l_px_row (m_det_geo stage)) (l_px_col (m_det_geo stage))"

text \<open>
  The older \<^verbatim>\<open>CUDAWeighting\<close> runs the same kernel (there called \<^verbatim>\<open>weight\<close>) with the
  constants of its constructor, which negate the detector offset and do not take the
  absolute values of the distances.
\<close>

definition CUDAWeighting_h_min :: "Geometry \<Rightarrow> real" where
  "CUDAWeighting_h_min geo =
     - (det_offset_horiz geo * det_pixel_size_horiz geo)
     - ((real (det_pixels_row geo) * det_pixel_size_horiz geo) / 2)"

definition CUDAWeighting_v_min :: "Geometry \<Rightarrow> real" where
  "CUDAWeighting_v_min geo =
     - (det_offset_vert geo * det_pixel_size_vert geo)
     - ((real (det_pixels_column geo) * det_pixel_size_vert geo) / 2)"

definition CUDAWeighting_d_dist :: "Geometry \<Rightarrow> real" where
  "CUDAWeighting_d_dist geo = dist_det geo + dist_src geo"

definition CUDAWeighting_process :: "Geometry \<Rightarrow> nat \<Rightarrow> nat \<Rightarrow> projection \<Rightarrow> projection" where
  "CUDAWeighting_process geo gx gy p =
     weight p gx gy (CUDAWeighting_h_min geo) (CUDAWeighting_v_min geo) (CUDAWeighting_d_dist geo)
       (det_pixel_size_horiz geo) (det_pixel_size_vert geo)"

section \<open>Back-projection: floating-point values\<close>

text \<open>
  The back-projection kernel divides by differences that can be zero, so its \<^verbatim>\<open>float\<close>
  values are modelled with the IEEE 754 special values: a finite value is an exact real
  (no rounding, no overflow, one unsigned zero), and there are the two infinities and NaN.
  The operations follow IEEE 754: NaN is absorbing, \<open>0 / 0\<close>, \<open>\<infinity> - \<infinity>\<close>, \<open>\<infinity> / \<infinity>\<close> and
  \<open>0 * \<infinity>\<close> are NaN, every comparison with NaN is false. (A non-zero value divided by
  zero takes the sign of the dividend: the zero counts as positive.)

  The rounding of a finite result to binary32 is not part of these operations; it is
  added in the section on the kernel with rounding. It matters because the kernel is
  discontinuous where a pixel coordinate is integral (there \<^verbatim>\<open>floorf\<close> and \<^verbatim>\<open>ceilf\<close> agree
  and a weight is \<open>0 / 0\<close>), and a coordinate that is not integral as a real number can
  round to an integral \<^verbatim>\<open>float\<close>: for \<open>h = 1/2 + 1/16777216\<close> on a detector of four pixels
  of 1 mm, \<open>h + 3/2\<close> rounds to \<open>2\<close>. Statements about the kernel without rounding are
  therefore made only at values that binary32 holds exactly and whose intermediate results
  it holds exactly, or together with the same statement about the kernel with rounding. A
  hypothesis \<open>a \<notin> \<int>\<close> on a pixel coordinate is a hypothesis on the coordinate that the
  operations compute.
\<close>

datatype fl = Fin real | PInf | NInf | NaN

fun fneg :: "fl \<Rightarrow> fl" where
  "fneg (Fin a) = Fin (- a)"
| "fneg PInf = NInf"
| "fneg NInf = PInf"
| "fneg NaN = NaN"

fun fadd :: "fl \<Rightarrow> fl \<Rightarrow> fl" where
  "fadd (Fin a) (Fin b) = Fin (a + b)"
| "fadd (Fin a) PInf = PInf"
| "fadd (Fin a) NInf = NInf"
| "fadd PInf (Fin b) = PInf"
| "fadd NInf (Fin b) = NInf"
| "fadd PInf PInf = PInf"
| "fadd NInf NInf = NInf"
| "fadd PInf NInf = NaN"
| "fadd NInf PInf = NaN"
| "fadd NaN y = NaN"
| "fadd x NaN = NaN"

definition fsub :: "fl \<Rightarrow> fl \<Rightarrow> fl" where
  "fsub x y = fadd x (fneg y)"

fun fmul :: "fl \<Rightarrow> fl \<Rightarrow> fl" where
  "fmul (Fin a) (Fin b) = Fin (a * b)"
| "fmul (Fin a) PInf = (if a = 0 then NaN else if 0 < a then PInf else NInf)"
| "fmul (Fin a) NInf = (if a = 0 then NaN else if 0 < a then NInf else PInf)"
| "fmul PInf (Fin b) = (if b = 0 then NaN else if 0 < b then PInf else NInf)"
| "fmul NInf (Fin b) = (if b = 0 then NaN else if 0 < b then NInf else PInf)"
| "fmul PInf PInf = PInf"
| "fmul NInf NInf = PInf"
| "fmul PInf NInf = NInf"
| "fmul NInf PInf = NInf"
| "fmul NaN y = NaN"
| "fmul x NaN = NaN"

fun fdiv :: "fl \<Rightarrow> fl \<Rightarrow> fl" where
  "fdiv (Fin a) (Fin b) =
     (if b = 0 then (if a = 0 then NaN else if 0 < a then PInf else NInf) else Fin (a / b))"
| "fdiv (Fin a) PInf = Fin 0"
| "fdiv (Fin a) NInf = Fin 0"
| "fdiv PInf (Fin b) = (if 0 \<le> b then PInf else NInf)"
| "fdiv NInf (Fin b) = (if 0 \<le> b then NInf else PInf)"
| "fdiv PInf PInf = NaN"
| "fdiv NInf NInf = NaN"
| "fdiv PInf NInf = NaN"
| "fdiv NInf PInf = NaN"
| "fdiv NaN y = NaN"
| "fdiv x NaN = NaN"

fun floorf :: "fl \<Rightarrow> fl" where
  "floorf (Fin a) = Fin (real_of_int \<lfloor>a\<rfloor>)"
| "floorf x = x"

fun ceilf :: "fl \<Rightarrow> fl" where
  "ceilf (Fin a) = Fin (real_of_int \<lceil>a\<rceil>)"
| "ceilf x = x"

text \<open>The comparisons \<^verbatim>\<open>x >= y\<close> and \<^verbatim>\<open>x < y\<close>.\<close>

fun fge :: "fl \<Rightarrow> fl \<Rightarrow> bool" where
  "fge (Fin a) (Fin b) = (a \<ge> b)"
| "fge NaN y = False"
| "fge x NaN = False"
| "fge PInf y = True"
| "fge x NInf = True"
| "fge x y = False"

fun flt :: "fl \<Rightarrow> fl \<Rightarrow> bool" where
  "flt (Fin a) (Fin b) = (a < b)"
| "flt NaN y = False"
| "flt x NaN = False"
| "flt x NInf = False"
| "flt PInf y = False"
| "flt x y = True"

text \<open>\<^verbatim>\<open>static_cast<float>\<close> of a \<^verbatim>\<open>std::size_t\<close> or an \<^verbatim>\<open>unsigned int\<close>.\<close>

definition to_float :: "nat \<Rightarrow> fl" where
  "to_float n = Fin (real n)"

text \<open>
  \<^verbatim>\<open>as_unsigned\<close>, the cast of a \<^verbatim>\<open>float\<close> to \<^verbatim>\<open>unsigned int\<close>. The kernel uses the result
  as an index only where the value passed the bounds check, so the cast of a negative or
  non-finite value (undefined in C++) is never read; the model takes \<open>0\<close> for it.
\<close>

fun as_unsigned :: "fl \<Rightarrow> nat" where
  "as_unsigned (Fin a) = nat \<lfloor>a\<rfloor>"
| "as_unsigned x = 0"

section \<open>Back-projection: interpolation and kernel\<close>

text \<open>
  The two coordinate helpers of the kernel (their parameters \<^verbatim>\<open>dim\<close> and \<^verbatim>\<open>size\<close> are
  \<open>dm\<close> and \<open>sz\<close> here, the local \<^verbatim>\<open>min\<close> is \<open>min_c\<close>):
  \<^verbatim>\<open>vol_centered_coordinate\<close> returns \<^verbatim>\<open>-(dim * size2) + size2 + coord * size\<close> and
  \<^verbatim>\<open>proj_real_coordinate\<close> returns \<^verbatim>\<open>(coord - size2 - min) / size\<close> with
  \<^verbatim>\<open>min = -(dim * size2) - offset\<close>.
\<close>

definition vol_centered_coordinate :: "nat \<Rightarrow> nat \<Rightarrow> fl \<Rightarrow> fl" where
  "vol_centered_coordinate coord dm sz =
     (let size2 = fdiv sz (Fin 2)
      in fadd (fadd (fneg (fmul (to_float dm) size2)) size2) (fmul (to_float coord) sz))"

definition proj_real_coordinate :: "fl \<Rightarrow> nat \<Rightarrow> fl \<Rightarrow> fl \<Rightarrow> fl" where
  "proj_real_coordinate coord dm sz offset =
     (let size2 = fdiv sz (Fin 2);
          min_c = fsub (fneg (fmul (to_float dm) size2)) offset
      in fdiv (fsub (fsub coord size2) min_c) sz)"

text \<open>
  \<^verbatim>\<open>interpolate\<close>. The projection is a function from the row and the column to the pixel.
  Each of the four corners is read only where both of its coordinates passed the bounds
  check, and is \<open>0\<close> otherwise; the weights are computed before and without any check.
\<close>

definition interpolate ::
  "fl \<Rightarrow> fl \<Rightarrow> (nat \<Rightarrow> nat \<Rightarrow> fl) \<Rightarrow> nat \<Rightarrow> nat \<Rightarrow> fl \<Rightarrow> fl \<Rightarrow> fl \<Rightarrow> fl \<Rightarrow> fl" where
  "interpolate h v proj proj_width proj_height pixel_size_x pixel_size_y offset_x offset_y =
     (let h_real = proj_real_coordinate h proj_width pixel_size_x offset_x;
          v_real = proj_real_coordinate v proj_height pixel_size_y offset_y;
          h_j0 = floorf h_real;
          h_j1 = ceilf h_real;
          v_i0 = floorf v_real;
          v_i1 = ceilf v_real;
          w_h0 = fdiv (fsub h_real h_j0) (fsub h_j1 h_j0);
          w_v0 = fdiv (fsub v_real v_i0) (fsub v_i1 v_i0);
          h_j0_ui = as_unsigned h_j0;
          h_j1_ui = as_unsigned h_j1;
          v_i0_ui = as_unsigned v_i0;
          v_i1_ui = as_unsigned v_i1;
          upper_row = proj v_i0_ui;
          lower_row = proj v_i1_ui;
          w_h1 = fsub (Fin 1) w_h0;
          w_v1 = fsub (Fin 1) w_v0;
          h_j0_valid = (fge h_j0 (Fin 0) \<and> flt h_j0 (to_float proj_width));
          h_j1_valid = (fge h_j1 (Fin 0) \<and> flt h_j1 (to_float proj_width));
          v_i0_valid = (fge v_i0 (Fin 0) \<and> flt v_i0 (to_float proj_height));
          v_i1_valid = (fge v_i1 (Fin 0) \<and> flt v_i1 (to_float proj_height));
          tl = (if h_j0_valid \<and> v_i0_valid then upper_row h_j0_ui else Fin 0);
          bl = (if h_j0_valid \<and> v_i1_valid then lower_row h_j0_ui else Fin 0);
          tr = (if h_j1_valid \<and> v_i0_valid then upper_row h_j1_ui else Fin 0);
          br = (if h_j1_valid \<and> v_i1_valid then lower_row h_j1_ui else Fin 0)
      in fadd (fadd (fadd (fmul (fmul w_h1 w_v1) tl) (fmul (fmul w_h1 w_v0) bl))
                    (fmul (fmul w_h0 w_v1) tr))
              (fmul (fmul w_h0 w_v0) br))"

text \<open>
  One thread \<open>(k, l, m)\<close> of the kernel \<^verbatim>\<open>backproject\<close>: the new value of its voxel, given
  the old one. \<^verbatim>\<open>powf(u, 2.f)\<close> is \<open>u * u\<close>.
\<close>

definition backproject ::
  "fl \<Rightarrow> nat \<Rightarrow> nat \<Rightarrow> nat \<Rightarrow> nat \<Rightarrow> nat \<Rightarrow> nat \<Rightarrow> fl \<Rightarrow> fl \<Rightarrow> fl
     \<Rightarrow> (nat \<Rightarrow> nat \<Rightarrow> fl) \<Rightarrow> nat \<Rightarrow> nat \<Rightarrow> fl \<Rightarrow> fl \<Rightarrow> fl \<Rightarrow> fl
     \<Rightarrow> fl \<Rightarrow> fl \<Rightarrow> fl \<Rightarrow> fl \<Rightarrow> fl" where
  "backproject voxel k l m vol_w vol_h vol_d vx_size_x vx_size_y vx_size_z
     proj proj_w proj_h pixel_size_x pixel_size_y pixel_offset_x pixel_offset_y
     angle_sin angle_cos d_src d_sd =
     (if (k < vol_w) \<and> (l < vol_h) \<and> (m < vol_d)
      then (let x_k = vol_centered_coordinate k vol_w vx_size_x;
                y_l = vol_centered_coordinate l vol_h vx_size_y;
                z_m = vol_centered_coordinate m vol_d vx_size_z;
                s = fadd (fmul x_k angle_cos) (fmul y_l angle_sin);
                t = fadd (fmul (fneg x_k) angle_sin) (fmul y_l angle_cos);
                z = z_m;
                factor = fdiv d_sd (fsub s d_src);
                h = fmul t factor;
                v = fmul z factor;
                det = interpolate h v proj proj_w proj_h
                        pixel_size_x pixel_size_y pixel_offset_x pixel_offset_y;
                u = fdiv d_src (fsub s d_src)
            in fadd voxel (fmul (fmul (Fin (1 / 2)) det) (fmul u u)))
      else voxel)"




text \<open>
  A real number is \<open>d\<close> away from the integers if it lies in \<open>[n + d, n + 1 - d]\<close> for the
  integer \<open>n\<close> below it.
\<close>

definition away_from_integers :: "real \<Rightarrow> real \<Rightarrow> bool" where
  "away_from_integers d a \<longleftrightarrow>
     real_of_int \<lfloor>a\<rfloor> + d \<le> a \<and> a \<le> real_of_int \<lfloor>a\<rfloor> + 1 - d"

section \<open>Back-projection: the kernel with rounding\<close>

text \<open>
  The same kernel with the rounding of binary32 at every arithmetic operation. Each
  operation of the source is a site with a number \<open>i\<close>, and \<open>r i\<close> is the function that
  rounds the exact result at this site; \<open>rd\<close> applies it to a finite value. The sites are
  separate so that the compiler may treat them differently: a multiplication that is fused
  with the following addition is a site that does not round. The conversions of the
  integers \<^verbatim>\<open>dim\<close> and \<^verbatim>\<open>coord\<close> to \<^verbatim>\<open>float\<close> (exact below \<open>2 ^ 24\<close>), \<^verbatim>\<open>floorf\<close>, \<^verbatim>\<open>ceilf\<close>,
  the negation and the comparisons are exact.
\<close>

fun rd :: "(real \<Rightarrow> real) \<Rightarrow> fl \<Rightarrow> fl" where
  "rd f (Fin a) = Fin (f a)"
| "rd f PInf = PInf"
| "rd f NInf = NInf"
| "rd f NaN = NaN"

text \<open>
  \<^verbatim>\<open>powf(u, 2.f)\<close> is a function of the CUDA library. For a finite argument it returns the
  value \<open>p u\<close>, and nothing is assumed about \<open>p\<close>; \<open>p u = u * u\<close> is the exact result.
\<close>

fun powf_2 :: "(real \<Rightarrow> real) \<Rightarrow> fl \<Rightarrow> fl" where
  "powf_2 p (Fin a) = Fin (p a)"
| "powf_2 p PInf = PInf"
| "powf_2 p NInf = PInf"
| "powf_2 p NaN = NaN"

text \<open>
  What is assumed of the rounding: zero is not rounded, and a result of magnitude at most
  1000 is changed by at most the fraction \<open>1 / 4000000\<close> of its magnitude plus \<open>10 ^ -30\<close>.
  Binary32 arithmetic is within this bound: rounding to nearest changes a result in the
  normal range by at most the fraction \<open>2 ^ -24\<close> of its magnitude and a result in the
  subnormal range by less than \<open>2 ^ -126\<close>, also when subnormal results are flushed to
  zero. The fraction \<open>1 / 4000000\<close> is above \<open>2 ^ -22\<close>, which leaves room for an operation
  that is accurate to two units in the last place only, such as a division that is compiled
  without IEEE rounding.
\<close>

definition rounding :: "(nat \<Rightarrow> real \<Rightarrow> real) \<Rightarrow> bool" where
  "rounding r \<longleftrightarrow>
     (\<forall>i. r i 0 = 0)
     \<and> (\<forall>i x. \<bar>x\<bar> \<le> 1000 \<longrightarrow>
           \<bar>r i x - x\<bar> \<le> \<bar>x\<bar> / 4000000 + 1 / 1000000000000000000000000000000)"

definition vol_centered_coordinate_rounded ::
  "(nat \<Rightarrow> real \<Rightarrow> real) \<Rightarrow> nat \<Rightarrow> nat \<Rightarrow> fl \<Rightarrow> fl" where
  "vol_centered_coordinate_rounded r coord dm sz =
     (let size2 = rd (r 0) (fdiv sz (Fin 2))
      in rd (r 3)
           (fadd (rd (r 2) (fadd (fneg (rd (r 1) (fmul (to_float dm) size2))) size2))
                 (rd (r 4) (fmul (to_float coord) sz))))"

definition proj_real_coordinate_rounded ::
  "(nat \<Rightarrow> real \<Rightarrow> real) \<Rightarrow> fl \<Rightarrow> nat \<Rightarrow> fl \<Rightarrow> fl \<Rightarrow> fl" where
  "proj_real_coordinate_rounded r coord dm sz offset =
     (let size2 = rd (r 0) (fdiv sz (Fin 2));
          min_c = rd (r 2) (fsub (fneg (rd (r 1) (fmul (to_float dm) size2))) offset)
      in rd (r 5) (fdiv (rd (r 4) (fsub (rd (r 3) (fsub coord size2)) min_c)) sz))"

definition interpolate_pixel_rounded ::
  "(nat \<Rightarrow> real \<Rightarrow> real) \<Rightarrow> fl \<Rightarrow> fl \<Rightarrow> (nat \<Rightarrow> nat \<Rightarrow> fl) \<Rightarrow> nat \<Rightarrow> nat \<Rightarrow> fl" where
  "interpolate_pixel_rounded r h_real v_real proj proj_width proj_height =
     (let h_j0 = floorf h_real;
          h_j1 = ceilf h_real;
          v_i0 = floorf v_real;
          v_i1 = ceilf v_real;
          w_h0 = rd (r 2) (fdiv (rd (r 0) (fsub h_real h_j0)) (rd (r 1) (fsub h_j1 h_j0)));
          w_v0 = rd (r 5) (fdiv (rd (r 3) (fsub v_real v_i0)) (rd (r 4) (fsub v_i1 v_i0)));
          h_j0_ui = as_unsigned h_j0;
          h_j1_ui = as_unsigned h_j1;
          v_i0_ui = as_unsigned v_i0;
          v_i1_ui = as_unsigned v_i1;
          upper_row = proj v_i0_ui;
          lower_row = proj v_i1_ui;
          w_h1 = rd (r 6) (fsub (Fin 1) w_h0);
          w_v1 = rd (r 7) (fsub (Fin 1) w_v0);
          h_j0_valid = (fge h_j0 (Fin 0) \<and> flt h_j0 (to_float proj_width));
          h_j1_valid = (fge h_j1 (Fin 0) \<and> flt h_j1 (to_float proj_width));
          v_i0_valid = (fge v_i0 (Fin 0) \<and> flt v_i0 (to_float proj_height));
          v_i1_valid = (fge v_i1 (Fin 0) \<and> flt v_i1 (to_float proj_height));
          tl = (if h_j0_valid \<and> v_i0_valid then upper_row h_j0_ui else Fin 0);
          bl = (if h_j0_valid \<and> v_i1_valid then lower_row h_j0_ui else Fin 0);
          tr = (if h_j1_valid \<and> v_i0_valid then upper_row h_j1_ui else Fin 0);
          br = (if h_j1_valid \<and> v_i1_valid then lower_row h_j1_ui else Fin 0)
      in rd (r 18)
           (fadd (rd (r 17)
                    (fadd (rd (r 16)
                             (fadd (rd (r 9) (fmul (rd (r 8) (fmul w_h1 w_v1)) tl))
                                   (rd (r 11) (fmul (rd (r 10) (fmul w_h1 w_v0)) bl))))
                          (rd (r 13) (fmul (rd (r 12) (fmul w_h0 w_v1)) tr))))
                 (rd (r 15) (fmul (rd (r 14) (fmul w_h0 w_v0)) br))))"

definition interpolate_rounded ::
  "(nat \<Rightarrow> real \<Rightarrow> real) \<Rightarrow> fl \<Rightarrow> fl \<Rightarrow> (nat \<Rightarrow> nat \<Rightarrow> fl) \<Rightarrow> nat \<Rightarrow> nat
     \<Rightarrow> fl \<Rightarrow> fl \<Rightarrow> fl \<Rightarrow> fl \<Rightarrow> fl" where
  "interpolate_rounded r h v proj proj_width proj_height pixel_size_x pixel_size_y
     offset_x offset_y =
     (let h_real = proj_real_coordinate_rounded r h proj_width pixel_size_x offset_x;
          v_real = proj_real_coordinate_rounded (\<lambda>i. r (6 + i)) v proj_height
                     pixel_size_y offset_y
      in interpolate_pixel_rounded (\<lambda>i. r (12 + i)) h_real v_real proj proj_width proj_height)"

text \<open>
  The sites of \<^verbatim>\<open>backproject\<close>: 0 to 14 are the three voxel coordinates, 15 to 26 the sample
  and the distance weight, 27 to 57 the interpolation (of which 27 to 38 are the two pixel
  coordinates), 58 to 60 the update of the voxel.
\<close>

definition backproject_sample_rounded ::
  "(nat \<Rightarrow> real \<Rightarrow> real) \<Rightarrow> nat \<Rightarrow> nat \<Rightarrow> nat \<Rightarrow> nat \<Rightarrow> nat \<Rightarrow> nat \<Rightarrow> fl \<Rightarrow> fl \<Rightarrow> fl
     \<Rightarrow> fl \<Rightarrow> fl \<Rightarrow> fl \<Rightarrow> fl \<Rightarrow> fl \<times> fl \<times> fl" where
  "backproject_sample_rounded r k l m vol_w vol_h vol_d vx_size_x vx_size_y vx_size_z
     angle_sin angle_cos d_src d_sd =
     (let x_k = vol_centered_coordinate_rounded r k vol_w vx_size_x;
          y_l = vol_centered_coordinate_rounded (\<lambda>i. r (5 + i)) l vol_h vx_size_y;
          z_m = vol_centered_coordinate_rounded (\<lambda>i. r (10 + i)) m vol_d vx_size_z;
          s = rd (r 17) (fadd (rd (r 15) (fmul x_k angle_cos)) (rd (r 16) (fmul y_l angle_sin)));
          t = rd (r 20) (fadd (rd (r 18) (fmul (fneg x_k) angle_sin))
                              (rd (r 19) (fmul y_l angle_cos)));
          z = z_m;
          factor = rd (r 22) (fdiv d_sd (rd (r 21) (fsub s d_src)));
          h = rd (r 23) (fmul t factor);
          v = rd (r 24) (fmul z factor);
          u = rd (r 26) (fdiv d_src (rd (r 25) (fsub s d_src)))
      in (h, v, u))"

definition backproject_rounded ::
  "(nat \<Rightarrow> real \<Rightarrow> real) \<Rightarrow> (real \<Rightarrow> real) \<Rightarrow> fl \<Rightarrow> nat \<Rightarrow> nat \<Rightarrow> nat
     \<Rightarrow> nat \<Rightarrow> nat \<Rightarrow> nat \<Rightarrow> fl \<Rightarrow> fl \<Rightarrow> fl
     \<Rightarrow> (nat \<Rightarrow> nat \<Rightarrow> fl) \<Rightarrow> nat \<Rightarrow> nat \<Rightarrow> fl \<Rightarrow> fl \<Rightarrow> fl \<Rightarrow> fl
     \<Rightarrow> fl \<Rightarrow> fl \<Rightarrow> fl \<Rightarrow> fl \<Rightarrow> fl" where
  "backproject_rounded r p voxel k l m vol_w vol_h vol_d vx_size_x vx_size_y vx_size_z
     proj proj_w proj_h pixel_size_x pixel_size_y pixel_offset_x pixel_offset_y
     angle_sin angle_cos d_src d_sd =
     (if (k < vol_w) \<and> (l < vol_h) \<and> (m < vol_d)
      then (case backproject_sample_rounded r k l m vol_w vol_h vol_d
                   vx_size_x vx_size_y vx_size_z angle_sin angle_cos d_src d_sd of
              (h, v, u) \<Rightarrow>
                (let det = interpolate_rounded (\<lambda>i. r (27 + i)) h v proj proj_w proj_h
                             pixel_size_x pixel_size_y pixel_offset_x pixel_offset_y
                 in rd (r 60)
                      (fadd voxel
                         (rd (r 59) (fmul (rd (r 58) (fmul (Fin (1 / 2)) det))
                                          (powf_2 p u))))))
      else voxel)"

section \<open>Example inputs\<close>

text \<open>A volume of \<open>32 \<times> 32 \<times> 32\<close> voxels of half a millimetre.\<close>

definition roi_example :: volume_geometry where
  "roi_example = \<lparr>volume_geometry.dim_x = 32, dim_y = 32, dim_z = 32,
                   l_vx_x = 1 / 2, l_vx_y = 1 / 2, l_vx_z = 1 / 2\<rparr>"

text \<open>A detector of \<open>4 \<times> 4\<close> pixels of one millimetre.\<close>

definition filter_example :: Geometry where
  "filter_example = \<lparr>det_pixels_row = 4, det_pixels_column = 4, det_pixel_size_horiz = 1,
     det_pixel_size_vert = 1, det_offset_horiz = 0, det_offset_vert = 0,
     dist_src = 100, dist_det = 100\<rparr>"

text \<open>
  Scenario S1: a detector of \<open>32 \<times> 32\<close> pixels of one millimetre without offset, source
  and detector 100 mm from the rotation axis; once as \<^verbatim>\<open>common::Geometry\<close>, once as
  \<^verbatim>\<open>detector_geometry\<close>.
\<close>

definition s1_geo :: Geometry where
  "s1_geo = \<lparr>det_pixels_row = 32, det_pixels_column = 32, det_pixel_size_horiz = 1,
     det_pixel_size_vert = 1, det_offset_horiz = 0, det_offset_vert = 0,
     dist_src = 100, dist_det = 100\<rparr>"

definition s1_det_geo :: detector_geometry where
  "s1_det_geo = \<lparr>n_row = 32, n_col = 32, l_px_row = 1, l_px_col = 1,
     delta_s = 0, delta_t = 0, d_so = 100, d_od = 100\<rparr>"

text \<open>A projection of \<open>32 \<times> 32\<close> pixels, all of them 1.\<close>

definition ones_projection :: projection where
  "ones_projection = \<lparr>width = 32, height = 32, ptr = (\<lambda>t s. 1)\<rparr>"

text \<open>A projection whose pixels are all \<open>0\<close>, for the back-projection kernel.\<close>

definition zero_image :: "nat \<Rightarrow> nat \<Rightarrow> fl" where
  "zero_image = (\<lambda>row col. Fin 0)"

text \<open>
  A detector of \<open>1000 \<times> 1000\<close> pixels of one millimetre without offset, source and
  detector 5000 mm from the rotation axis.
\<close>

definition c1_geo :: Geometry where
  "c1_geo = \<lparr>det_pixels_row = 1000, det_pixels_column = 1000, det_pixel_size_horiz = 1,
     det_pixel_size_vert = 1, det_offset_horiz = 0, det_offset_vert = 0,
     dist_src = 5000, dist_det = 5000\<rparr>"

section \<open>Properties of the halving loop\<close>

text \<open>
  With a device memory of at least one byte the halving returns after some number \<open>h\<close> of
  halvings: the chunk is \<open>s div 2 ^ h\<close>, below the device memory for the first time, and
  the count is \<open>c * 2 ^ h\<close> modulo \<open>2 ^ 32\<close>.
\<close>

lemma calcVolumeSizePerDev_halvings:
  assumes "0 < dev_mem" and "c < 2 ^ 32"
  shows "\<exists>h. calcVolumeSizePerDev s c dev_mem = Some (s div 2 ^ h, (c * 2 ^ h) mod 2 ^ 32)
            \<and> s div 2 ^ h < dev_mem \<and> (\<forall>i<h. dev_mem \<le> s div 2 ^ i)"
  using assms
proof (induction s arbitrary: c rule: less_induct)
  case (less s)
  show ?case
  proof (cases "dev_mem \<le> s")
    case False
    with less.prems
    have "calcVolumeSizePerDev s c dev_mem = Some (s div 2 ^ 0, (c * 2 ^ 0) mod 2 ^ 32)"
      by (subst calcVolumeSizePerDev.simps) simp
    moreover from False have "s div 2 ^ 0 < dev_mem" by simp
    ultimately show ?thesis by blast
  next
    case True
    with less.prems have "s div 2 < s" by simp
    moreover have "(c * 2) mod 2 ^ 32 < (2::nat) ^ 32" by simp
    ultimately obtain h where h:
      "calcVolumeSizePerDev (s div 2) (c * 2 mod 2 ^ 32) dev_mem =
         Some (s div 2 div 2 ^ h, (c * 2 mod 2 ^ 32 * 2 ^ h) mod 2 ^ 32)"
      "s div 2 div 2 ^ h < dev_mem" "\<forall>i<h. dev_mem \<le> s div 2 div 2 ^ i"
      using less.IH [of "s div 2" "(c * 2) mod 2 ^ 32"] less.prems(1) by blast
    have d: "s div 2 div 2 ^ i = s div 2 ^ Suc i" for i
      by (simp add: div_mult2_eq)
    have m: "(c * 2 mod 2 ^ 32 * 2 ^ h) mod 2 ^ 32 = (c * 2 ^ Suc h) mod 2 ^ 32"
      by (simp add: mod_mult_left_eq mult.assoc)
    have "calcVolumeSizePerDev s c dev_mem =
            Some (s div 2 ^ Suc h, (c * 2 ^ Suc h) mod 2 ^ 32)"
      using True h(1) unfolding d m
      by (subst calcVolumeSizePerDev.simps) simp
    moreover have "s div 2 ^ Suc h < dev_mem"
      using h(2) unfolding d .
    moreover have "\<forall>i<Suc h. dev_mem \<le> s div 2 ^ i"
    proof (intro allI impI)
      fix i assume "i < Suc h"
      show "dev_mem \<le> s div 2 ^ i"
      proof (cases i)
        case 0
        with True show ?thesis by simp
      next
        case (Suc j)
        with \<open>i < Suc h\<close> have "j < h" by simp
        with h(3) have "dev_mem \<le> s div 2 div 2 ^ j" by blast
        then show ?thesis unfolding d Suc .
      qed
    qed
    ultimately show ?thesis by blast
  qed
qed

lemma calcVolumeSizePerDev_step:
  "dev_mem \<le> s \<Longrightarrow>
   calcVolumeSizePerDev s c dev_mem = calcVolumeSizePerDev (s div 2) ((c * 2) mod 2 ^ 32) dev_mem"
  by (subst calcVolumeSizePerDev.simps) simp

lemma calcVolumeSizePerDev_stop:
  "s < dev_mem \<Longrightarrow> calcVolumeSizePerDev s c dev_mem = Some (s, c)"
  by (subst calcVolumeSizePerDev.simps) simp

text \<open>With a device memory of at least one byte the halving always returns, and the
  chunk it returns is smaller than the device memory.\<close>

lemma calcVolumeSizePerDev_returns:
  assumes "0 < dev_mem" and "c < 2 ^ 32"
  shows "\<exists>size count. calcVolumeSizePerDev s c dev_mem = Some (size, count) \<and> size < dev_mem"
  using calcVolumeSizePerDev_halvings [OF assms, of s] by blast

text \<open>
  Claim C7, as stated, fails where the 32-bit chunk count wraps: a volume of \<open>2 ^ 32\<close> bytes
  on one device with one byte of global memory is halved 33 times, and the count
  \<open>2 ^ 33 mod 2 ^ 32 = 0\<close> is not a power of two.
\<close>

theorem halving_count_wraps_counterexample:
  "volumes_for_device 4294967296 1 1 = Some (0, 0)"
  by (simp add: volumes_for_device_def calcVolumeSizePerDev_step calcVolumeSizePerDev_stop)

text \<open>
  Claim C7, amended: for a device with positive global memory, at least one device, and an
  initial chunk \<open>bytes_per_volume / n_devices\<close> below \<open>2 ^ 31\<close> times the device memory, the
  loop returns after \<open>h \<le> 31\<close> halvings, each taken because the chunk was still at least
  the device memory; the chunk count is the power of two \<open>2 ^ h\<close> and the final chunk size
  is strictly below the device memory.
\<close>

theorem halving_power_of_two:
  assumes "0 < mem" and "0 < devices" and "bytes div devices < 2 ^ 31 * mem"
  shows "\<exists>h\<le>31. volumes_for_device bytes devices mem
                    = Some ((bytes div devices) div 2 ^ h, 2 ^ h)
               \<and> (bytes div devices) div 2 ^ h < mem
               \<and> (\<forall>i<h. mem \<le> (bytes div devices) div 2 ^ i)"
proof -
  let ?s = "bytes div devices"
  obtain h where h:
    "calcVolumeSizePerDev ?s 1 mem = Some (?s div 2 ^ h, (1 * 2 ^ h) mod 2 ^ 32)"
    "?s div 2 ^ h < mem" "\<forall>i<h. mem \<le> ?s div 2 ^ i"
    using calcVolumeSizePerDev_halvings [of mem 1 ?s] assms(1) by auto
  have le: "h \<le> 31"
  proof (rule ccontr)
    assume "\<not> h \<le> 31"
    then have "31 < h" by simp
    with h(3) have "mem \<le> ?s div 2 ^ 31" by blast
    moreover have "?s div 2 ^ 31 < mem"
      using assms(3) by (simp add: less_mult_imp_div_less mult.commute)
    ultimately show False by simp
  qed
  then have "(2::nat) ^ h \<le> 2 ^ 31" by (intro power_increasing) simp_all
  also have "\<dots> < (2::nat) ^ 32" by simp
  finally have "(2::nat) ^ h < 2 ^ 32" .
  then have "(1 * 2 ^ h) mod 2 ^ 32 = (2::nat) ^ h" by simp
  with h le show ?thesis unfolding volumes_for_device_def by metis
qed

theorem halving_power_of_two_witness:
  "(0::nat) < 32768 \<and> (0::nat) < 1 \<and> (131072::nat) div 1 < 2 ^ 31 * 32768 \<and>
   (\<exists>h\<le>31. volumes_for_device 131072 1 32768 = Some ((131072 div 1) div 2 ^ h, 2 ^ h)
        \<and> (131072 div 1) div 2 ^ h < (32768::nat)
        \<and> (\<forall>i<h. (32768::nat) \<le> (131072 div 1) div 2 ^ i))"
  using halving_power_of_two [of 32768 1 131072] by simp

section \<open>Properties of the partition into sub-volumes\<close>

lemma sqrt_401_bounds: "1001 / 50 < sqrt 401" "sqrt 401 < 501 / 25"
proof -
  have "sqrt ((1001 / 50)\<^sup>2) < sqrt 401"
    by (simp only: real_sqrt_less_iff) (simp add: power2_eq_square)
  then show "1001 / 50 < sqrt 401" by simp
  have "sqrt 401 < sqrt ((501 / 25)\<^sup>2)"
    by (simp only: real_sqrt_less_iff) (simp add: power2_eq_square)
  then show "sqrt 401 < 501 / 25" by simp
qed

lemma c1_sin: "sin (arctan (1 / 20)) = 1 / sqrt 401"
proof -
  have h: "1 + (1 / 20 :: real)\<^sup>2 = 401 / 400" by (simp add: power2_eq_square)
  have "sqrt (1 + (1 / 20)\<^sup>2) = sqrt (401 / 400)" by (simp only: h)
  also have "\<dots> = sqrt 401 / sqrt 400" by (rule real_sqrt_divide)
  also have "sqrt 400 = 20" using real_sqrt_abs [of 20] by simp
  finally have "sqrt (1 + (1 / 20)\<^sup>2) = sqrt 401 / 20" .
  then show ?thesis by (simp only: sin_arctan) simp
qed

lemma c1_volume_geo:
  "VolumeGeometry.dim_x (calculate_volume_geo c1_geo) = 1000"
  "VolumeGeometry.dim_y (calculate_volume_geo c1_geo) = 1000"
  "VolumeGeometry.dim_z (calculate_volume_geo c1_geo) = 1001"
proof -
  show x: "VolumeGeometry.dim_x (calculate_volume_geo c1_geo) = 1000"
    using sqrt_401_bounds(1)
    by (simp add: calculate_volume_geo_def c1_geo_def dist_sd_def Let_def c1_sin
          float_to_unsigned_def)
  then show "VolumeGeometry.dim_y (calculate_volume_geo c1_geo) = 1000"
    by (simp add: calculate_volume_geo_def Let_def)
  have "\<lfloor>50 * sqrt 401\<rfloor> = 1001"
    using sqrt_401_bounds by (intro floor_unique) simp_all
  then show "VolumeGeometry.dim_z (calculate_volume_geo c1_geo) = 1001"
    using sqrt_401_bounds(1)
    by (simp add: calculate_volume_geo_def c1_geo_def dist_sd_def Let_def c1_sin
          float_to_unsigned_def)
qed

text \<open>
  Claim C1 does not hold of the code. A detector of \<open>1000 \<times> 1000\<close> pixels of 1 mm with
  source and detector 5000 mm from the axis gives a volume of \<open>1000 \<times> 1000 \<times> 1001\<close> voxels
  (4004000000 bytes), which one device with 2 GiB of global memory gets in 2 chunks. The
  offsets are \<open>0\<close> and \<open>1001 div 2 = 500\<close> and both extents are \<open>(1001 div 1) div 2 = 500\<close>:
  the extents sum to 1000, not to \<open>dim_z = 1001\<close>, and slice 1000 belongs to no sub-volume.
\<close>

theorem partition_drops_remainder:
  "VolumeGeometry.dim_z (calculate_volume_geo c1_geo) = 1001 \<and>
   calculate_volume_bytes (calculate_volume_geo c1_geo) = 4004000000 \<and>
   calculate_volumes_per_device 4004000000 [2147483648] = Some [2] \<and>
   sub_volumes 1001 [2] = [(0, 500), (500, 500)] \<and>
   sum_list (map snd (sub_volumes 1001 [2])) = 1000 \<and>
   1000 \<notin> \<Union> (slab ` set (sub_volumes 1001 [2]))"
proof -
  have a: "calculate_volumes_per_device 4004000000 [2147483648] = Some [2]"
    by (simp add: calculate_volumes_per_device_def volumes_for_device_def
          calcVolumeSizePerDev_step calcVolumeSizePerDev_stop)
  have b: "sub_volumes 1001 [2] = [(0, 500), (500, 500)]"
    by (simp add: sub_volumes_def offset_per_volume_def subvol_dev_size_def volume_count_def
          upt_conv_Cons)
  have c: "calculate_volume_bytes (calculate_volume_geo c1_geo) = 4004000000"
    by (simp add: calculate_volume_bytes_def c1_volume_geo)
  show ?thesis unfolding b using a c c1_volume_geo(3) by (simp add: slab_def)
qed

text \<open>
  What does hold: when every device has the same chunk count and \<open>N\<close> is the total
  count, sub-volume \<open>n\<close> starts at \<open>n * (dim_z div N)\<close> and has the extent \<open>dim_z div N\<close>;
  the slabs are pairwise disjoint and cover \<open>[0, N * (dim_z div N))\<close>. The extents sum to
  \<open>dim_z\<close> exactly when \<open>N\<close> divides \<open>dim_z\<close>; otherwise the last \<open>dim_z mod N\<close> slices are
  in no sub-volume. (\<open>dz\<close> is \<open>dim_z\<close>.)
\<close>

lemma concat_chunks:
  "concat (map (\<lambda>i. map (\<lambda>c. f (i * cnt + c)) [0..<cnt]) [0..<d]) = map f [0..<d * cnt]"
proof (induction d)
  case 0
  show ?case by simp
next
  case (Suc d)
  have "map (\<lambda>c. f (d * cnt + c)) [0..<cnt] = map f (map (\<lambda>c. c + d * cnt) [0..<cnt])"
    by (simp add: add.commute)
  also have "map (\<lambda>c. c + d * cnt) [0..<cnt] = [d * cnt..<cnt + d * cnt]"
    by (rule map_add_upt)
  finally have m: "map (\<lambda>c. f (d * cnt + c)) [0..<cnt] = map f [d * cnt..<cnt + d * cnt]" .
  have "[0..<d * cnt + cnt] = [0..<d * cnt] @ [d * cnt..<d * cnt + cnt]"
    by (rule upt_add_eq_append) simp
  then have "[0..<Suc d * cnt] = [0..<d * cnt] @ [d * cnt..<cnt + d * cnt]"
    by (simp add: add.commute)
  then show ?case using Suc m by simp
qed

lemma sub_volumes_homogeneous:
  assumes "0 < devices" and "0 < cnt" and "devices * cnt < 2 ^ 32"
  shows "sub_volumes dz (replicate devices cnt)
           = map (\<lambda>n. (n * (dz div (devices * cnt)), dz div (devices * cnt)))
                 [0..<devices * cnt]"
proof -
  let ?N = "devices * cnt"
  let ?vo = "dz div ?N"
  have vc: "volume_count (replicate devices cnt) = ?N"
    using assms(3) by (simp add: volume_count_def sum_list_replicate)
  have "sub_volumes dz (replicate devices cnt)
          = concat (map (\<lambda>i. map (\<lambda>c. ((i * cnt + c) * ?vo, ?vo)) [0..<cnt]) [0..<devices])"
    unfolding sub_volumes_def
    by (rule arg_cong [where f = concat])
       (simp add: offset_per_volume_def subvol_dev_size_def vc Let_def div_mult2_eq
          add_mult_distrib)
  also have "\<dots> = map (\<lambda>n. (n * ?vo, ?vo)) [0..<?N]"
    by (rule concat_chunks)
  finally show ?thesis .
qed

lemma slabs_union:
  "\<Union> (slab ` set (map (\<lambda>n. (n * vo, vo)) [0..<N])) = {0..<N * vo}"
proof (induction N)
  case 0
  show ?case by simp
next
  case (Suc N)
  have "slab (N * vo, vo) = {N * vo..<Suc N * vo}" by (simp add: slab_def add.commute)
  moreover have "{0..<N * vo} \<union> {N * vo..<Suc N * vo} = {0..<Suc N * vo}"
    by (rule ivl_disj_un_two) simp_all
  ultimately show ?case using Suc by (simp add: Un_commute)
qed

lemma slabs_disjoint:
  assumes "n < n'"
  shows "slab (n * vo, vo) \<inter> slab (n' * vo, vo) = {}"
proof -
  have "Suc n * vo \<le> n' * vo" using assms by (intro mult_le_mono1) simp
  then show ?thesis by (auto simp: slab_def)
qed

lemma partition_homogeneous:
  fixes dz devices cnt :: nat
  assumes "0 < devices" and "0 < cnt" and "devices * cnt < 2 ^ 32"
  defines "N \<equiv> devices * cnt"
  defines "vs \<equiv> sub_volumes dz (replicate devices cnt)"
  shows "length vs = N"
    and "\<forall>n<N. vs ! n = (n * (dz div N), dz div N)"
    and "sum_list (map snd vs) = N * (dz div N)"
    and "\<Union> (slab ` set vs) = {0..<N * (dz div N)}"
    and "\<forall>n<N. \<forall>n'<N. n \<noteq> n' \<longrightarrow> slab (vs ! n) \<inter> slab (vs ! n') = {}"
    and "N dvd dz \<longleftrightarrow> sum_list (map snd vs) = dz"
proof -
  have vs: "vs = map (\<lambda>n. (n * (dz div N), dz div N)) [0..<N]"
    unfolding vs_def N_def by (rule sub_volumes_homogeneous [OF assms(1-3)])
  show "length vs = N" by (simp add: vs)
  show nth: "\<forall>n<N. vs ! n = (n * (dz div N), dz div N)" by (simp add: vs)
  show sum: "sum_list (map snd vs) = N * (dz div N)"
    by (simp add: vs comp_def sum_list_triv)
  show "\<Union> (slab ` set vs) = {0..<N * (dz div N)}"
    unfolding vs by (rule slabs_union)
  show "\<forall>n<N. \<forall>n'<N. n \<noteq> n' \<longrightarrow> slab (vs ! n) \<inter> slab (vs ! n') = {}"
  proof (intro allI impI)
    fix n n' assume n: "n < N" "n' < N" "n \<noteq> n'"
    then consider "n < n'" | "n' < n" by linarith
    then show "slab (vs ! n) \<inter> slab (vs ! n') = {}"
    proof cases
      case 1
      then show ?thesis using n nth slabs_disjoint [of n n'] by simp
    next
      case 2
      then show ?thesis using n nth slabs_disjoint [of n' n] by (simp add: Int_commute)
    qed
  qed
  have "0 < N" using assms(1,2) by (simp add: N_def)
  then show "N dvd dz \<longleftrightarrow> sum_list (map snd vs) = dz"
    unfolding sum by (metis dvd_mult_div_cancel dvd_triv_left)
qed

text \<open>
  With different chunk counts the offset \<^verbatim>\<open>i * vol_count_dev * vol_offset\<close> of device \<open>i\<close>
  no longer counts the chunks of the devices before it: for 12 slices and the counts 2 and
  1 the second and the third sub-volume both start at slice 4.
\<close>

lemma sub_volumes_heterogeneous: "sub_volumes 12 [2, 1] = [(0, 3), (4, 3), (4, 6)]"
  by (simp add: sub_volumes_def offset_per_volume_def subvol_dev_size_def volume_count_def
        upt_conv_Cons numeral_2_eq_2 [symmetric])

section \<open>Scenario S5: one device with a quarter of the volume, less one byte\<close>

text \<open>
  Claim C6, as stated, fails: with a device memory of \<open>bytes_per_volume / 4 - 1\<close> a quarter
  of the volume is still not below the device memory, so the chunk is halved a third
  time. For the volume of \<open>32 * 32 * 32 * 4 = 131072\<close> bytes the single device gets 8 chunks.
\<close>

theorem halving_quarter_counterexample:
  "volumes_for_device 131072 1 (131072 div 4 - 1) = Some (16384, 8)"
  by (simp add: volumes_for_device_def calcVolumeSizePerDev_step calcVolumeSizePerDev_stop)

text \<open>
  Claim C6, amended: for a single-device run whose device global memory equals
  \<open>bytes_per_volume / 4 - 1\<close>, with a volume of at least 12 bytes, the scheduler produces
  \<open>chunks_per_device[0] = 8\<close> with a final chunk size of \<open>bytes_per_volume / 8\<close>, i.e. eight
  contiguous z-bands: band \<open>n\<close> starts at \<open>n * (dim_z div 8)\<close> and has \<open>dim_z div 8\<close> slices.
\<close>

theorem halving_quarter_minus_one:
  assumes "12 \<le> B"
  shows "volumes_for_device B 1 (B div 4 - 1) = Some (B div 8, 8)
       \<and> calculate_volumes_per_device B [B div 4 - 1] = Some [8]
       \<and> sub_volumes dz [8] = map (\<lambda>n. (n * (dz div 8), dz div 8)) [0..<8]"
proof -
  let ?m = "B div 4 - 1"
  have a3: "?m \<le> B div 2 div 2" by (simp add: div_mult2_eq)
  have a2: "?m \<le> B div 2" by (rule order_trans [OF a3]) simp
  have a1: "?m \<le> B" by (rule order_trans [OF a2]) simp
  have x: "3 \<le> B div 4" using assms by simp
  have e: "B div 2 div 2 div 2 = B div 8" by (simp add: div_mult2_eq)
  have "B div 8 = (B div 4) div 2" by (simp add: div_mult2_eq)
  moreover have "(B div 4) div 2 < B div 4 - 1" using x by linarith
  ultimately have b: "B div 2 div 2 div 2 < ?m" using e by simp
  have "calcVolumeSizePerDev (B div 1) 1 ?m = calcVolumeSizePerDev (B div 2) 2 ?m"
    using calcVolumeSizePerDev_step [OF a1, of 1] by simp
  also have "\<dots> = calcVolumeSizePerDev (B div 2 div 2) 4 ?m"
    using calcVolumeSizePerDev_step [OF a2, of 2] by simp
  also have "\<dots> = calcVolumeSizePerDev (B div 2 div 2 div 2) 8 ?m"
    using calcVolumeSizePerDev_step [OF a3, of 4] by simp
  also have "\<dots> = Some (B div 2 div 2 div 2, 8)"
    by (rule calcVolumeSizePerDev_stop [OF b])
  finally have v: "volumes_for_device B 1 ?m = Some (B div 8, 8)"
    unfolding volumes_for_device_def e .
  then have c: "calculate_volumes_per_device B [?m] = Some [8]"
    by (simp add: calculate_volumes_per_device_def)
  have s: "sub_volumes dz [8] = map (\<lambda>n. (n * (dz div 8), dz div 8)) [0..<8]"
    using sub_volumes_homogeneous [of 1 8 dz] by simp
  from v c s show ?thesis by (intro conjI)
qed

theorem halving_quarter_minus_one_witness:
  "(12::nat) \<le> 4096 \<and> volumes_for_device 4096 1 (4096 div 4 - 1) = Some (4096 div 8, 8)
   \<and> calculate_volumes_per_device 4096 [4096 div 4 - 1] = Some [8]
   \<and> sub_volumes 16 [8] = map (\<lambda>n. (n * (16 div 8), 16 div 8)) [0..<8]"
  using halving_quarter_minus_one [of 4096 16] by simp

section \<open>Properties of the region of interest\<close>

text \<open>
  Claim C9 does not hold of the code. Take a volume of \<open>32 \<times> 32 \<times> 32\<close> voxels and the
  region \<open>x1 = 0\<close>, \<open>x2 = 2 ^ 32 - 1\<close>, \<open>y1 = 0\<close>, \<open>y2 = 7\<close>, \<open>z1 = 8\<close>, \<open>z2 = 24\<close>. All three
  axes have \<open>low < high\<close>. The updated x-dimension is \<open>x2 - x1 + 1 = 2 ^ 32\<close> columns, far
  more than the 32 of the volume, so the claim has the input returned unchanged. In the
  code \<^verbatim>\<open>dim_x = x2 - x1\<close> is \<open>2 ^ 32 - 1\<close>, and \<^verbatim>\<open>++dim_x\<close> wraps to \<open>0\<close> in
  \<^verbatim>\<open>std::uint32_t\<close>; \<^verbatim>\<open>check_dims(0, 32)\<close> passes, the region is applied, and the result is
  a geometry of \<open>0 \<times> 8 \<times> 16\<close> voxels.
\<close>

theorem apply_roi_overflow:
  "check_coords 0 0xFFFFFFFF \<and> check_coords 0 7 \<and> check_coords 8 24
   \<and> unat (0xFFFFFFFF :: 32 word) - unat (0 :: 32 word) + 1 = 2 ^ 32
   \<and> unat (volume_geometry.dim_x roi_example) = 32
   \<and> roi_dim 0 0xFFFFFFFF = 0
   \<and> check_dims 0 (volume_geometry.dim_x roi_example)
   \<and> apply_roi roi_example 0 0xFFFFFFFF 0 7 8 24
       = roi_example\<lparr>volume_geometry.dim_x := 0, volume_geometry.dim_y := 8,
                      volume_geometry.dim_z := 16\<rparr>
   \<and> apply_roi roi_example 0 0xFFFFFFFF 0 7 8 24 \<noteq> roi_example"
  by (simp add: apply_roi_def check_coords_def check_dims_def roi_dim_def roi_example_def)

text \<open>
  What does hold. \<^verbatim>\<open>apply_roi\<close> is a total function (it is \<^verbatim>\<open>noexcept\<close> and has no failing
  branch). In terms of the dimension that the code computes in \<^verbatim>\<open>std::uint32_t\<close>,
  \<open>roi_dim\<close>: if some axis has \<open>low \<ge> high\<close>, or some computed dimension exceeds the
  original one, the result is the input geometry, all fields identical; otherwise the
  result is the input with the three computed dimensions. In every case the dimensions of
  the result are at most the original ones and the voxel sizes are unchanged.
\<close>

lemma apply_roi_branches:
  "(x2 \<le> x1 \<or> y2 \<le> y1 \<or> z2 \<le> z1
      \<or> volume_geometry.dim_x g < roi_dim x1 x2
      \<or> volume_geometry.dim_y g < roi_dim y1 y2
      \<or> volume_geometry.dim_z g < roi_dim z1 z2
     \<longrightarrow> apply_roi g x1 x2 y1 y2 z1 z2 = g)
   \<and> (x1 < x2 \<and> y1 < y2 \<and> z1 < z2
      \<and> roi_dim x1 x2 \<le> volume_geometry.dim_x g
      \<and> roi_dim y1 y2 \<le> volume_geometry.dim_y g
      \<and> roi_dim z1 z2 \<le> volume_geometry.dim_z g
     \<longrightarrow> apply_roi g x1 x2 y1 y2 z1 z2
          = g\<lparr>volume_geometry.dim_x := roi_dim x1 x2, volume_geometry.dim_y := roi_dim y1 y2,
              volume_geometry.dim_z := roi_dim z1 z2\<rparr>)
   \<and> volume_geometry.dim_x (apply_roi g x1 x2 y1 y2 z1 z2) \<le> volume_geometry.dim_x g
   \<and> volume_geometry.dim_y (apply_roi g x1 x2 y1 y2 z1 z2) \<le> volume_geometry.dim_y g
   \<and> volume_geometry.dim_z (apply_roi g x1 x2 y1 y2 z1 z2) \<le> volume_geometry.dim_z g
   \<and> l_vx_x (apply_roi g x1 x2 y1 y2 z1 z2) = l_vx_x g
   \<and> l_vx_y (apply_roi g x1 x2 y1 y2 z1 z2) = l_vx_y g
   \<and> l_vx_z (apply_roi g x1 x2 y1 y2 z1 z2) = l_vx_z g"
  by (auto simp: apply_roi_def check_coords_def check_dims_def Let_def)

text \<open>
  The computed dimension is the number of columns of the region, \<open>high - low\<close> and one more
  when \<open>low = 0\<close>, on every axis but the one from \<open>0\<close> to \<open>2 ^ 32 - 1\<close>. So the claim holds
  for every region that has no axis from \<open>0\<close> to \<open>2 ^ 32 - 1\<close>: a region with more columns,
  rows or slices than the volume is ignored.
\<close>

lemma roi_dim_exact:
  assumes "low < high" and "\<not> (low = 0 \<and> high = 0xFFFFFFFF)"
  shows "unat (roi_dim low high) = unat high - unat low + (if low = 0 then 1 else 0)"
proof (cases "low = 0")
  case True
  have m: "(0xFFFFFFFF :: 32 word) = - 1" by simp
  have "high \<noteq> - 1" using assms(2) True unfolding m by simp
  then have "1 + high \<noteq> 0" by (simp add: add_eq_0_iff)
  then have "unat (1 + high) = Suc (unat high)" by (rule unatSuc)
  then have "unat (high + 1) = unat high + 1" by (simp add: add.commute)
  then show ?thesis using True by (simp add: roi_dim_def)
next
  case False
  moreover have "low \<le> high" using assms(1) by simp
  ultimately show ?thesis by (simp add: roi_dim_def unat_sub)
qed

lemma apply_roi_without_overflow:
  assumes x: "\<not> (x1 = 0 \<and> x2 = 0xFFFFFFFF)"
      and y: "\<not> (y1 = 0 \<and> y2 = 0xFFFFFFFF)"
      and z: "\<not> (z1 = 0 \<and> z2 = 0xFFFFFFFF)"
      and e: "x2 \<le> x1 \<or> y2 \<le> y1 \<or> z2 \<le> z1
        \<or> unat (volume_geometry.dim_x g) < unat x2 - unat x1 + (if x1 = 0 then 1 else 0)
        \<or> unat (volume_geometry.dim_y g) < unat y2 - unat y1 + (if y1 = 0 then 1 else 0)
        \<or> unat (volume_geometry.dim_z g) < unat z2 - unat z1 + (if z1 = 0 then 1 else 0)"
  shows "apply_roi g x1 x2 y1 y2 z1 z2 = g"
proof (cases "x1 < x2 \<and> y1 < y2 \<and> z1 < z2")
  case False
  then show ?thesis by (auto simp: apply_roi_def check_coords_def)
next
  case True
  then have o: "x1 < x2" "y1 < y2" "z1 < z2" by simp_all
  have "unat (volume_geometry.dim_x g) < unat (roi_dim x1 x2)
      \<or> unat (volume_geometry.dim_y g) < unat (roi_dim y1 y2)
      \<or> unat (volume_geometry.dim_z g) < unat (roi_dim z1 z2)"
    unfolding roi_dim_exact [OF o(1) x] roi_dim_exact [OF o(2) y] roi_dim_exact [OF o(3) z]
    using e o by (simp only: not_le [symmetric]) blast
  then have "volume_geometry.dim_x g < roi_dim x1 x2
      \<or> volume_geometry.dim_y g < roi_dim y1 y2
      \<or> volume_geometry.dim_z g < roi_dim z1 z2"
    by (simp only: word_less_nat_alt)
  then show ?thesis
    by (auto simp: apply_roi_def check_coords_def check_dims_def Let_def)
qed

section \<open>Properties of the filter construction\<close>

lemma fill_j_past: "filter_len < k \<Longrightarrow> fill_j filter_len k j b = b"
  by (subst fill_j.simps) simp

lemma fill_j_step:
  "k \<le> filter_len \<Longrightarrow>
   fill_j filter_len k j b = fill_j filter_len (Suc k) (j + 1) (write_j b k j)"
  by (subst fill_j.simps) simp

text \<open>
  The loop started at \<open>k\<close> leaves the entries below \<open>k\<close>, writes \<open>j + (i - k)\<close> to every
  entry \<open>i\<close> from \<open>k\<close> on, and in its last iteration (\<open>k = filter_len\<close>) writes once
  behind the array.
\<close>

lemma fill_j_result:
  assumes "length (cells b) = filter_len" and "k \<le> filter_len"
  shows "cells (fill_j filter_len k j b)
           = take k (cells b) @ map (\<lambda>i. j + int (i - k)) [k..<filter_len]
         \<and> out_of_bounds (fill_j filter_len k j b)
           = out_of_bounds b @ [(filter_len, j + int (filter_len - k))]"
  using assms
proof (induction "filter_len - k" arbitrary: k j b)
  case 0
  then have k: "k = filter_len" by simp
  have "fill_j filter_len k j b = write_j b k j"
    using k by (simp add: fill_j_step fill_j_past)
  then show ?case using 0 k by (simp add: write_j_def)
next
  case (Suc d)
  then have lt: "k < filter_len" by simp
  let ?b = "write_j b k j"
  have b': "?b = b\<lparr>cells := (cells b)[k := j]\<rparr>"
    using lt Suc.prems by (simp add: write_j_def)
  have len: "length (cells ?b) = filter_len" using Suc.prems by (simp add: b')
  have d: "d = filter_len - Suc k" using Suc.hyps(2) by simp
  have le: "Suc k \<le> filter_len" using lt by simp
  note IH = Suc.hyps(1) [OF d len le, of "j + 1"]
  have s: "fill_j filter_len k j b = fill_j filter_len (Suc k) (j + 1) ?b"
    using lt by (simp add: fill_j_step)
  have t: "take (Suc k) ((cells b)[k := j]) = take k (cells b) @ [j]"
    using lt Suc.prems(1) by (simp add: take_Suc_conv_app_nth)
  have m: "map (\<lambda>i. j + 1 + int (i - Suc k)) [Suc k..<filter_len]
           = map (\<lambda>i. j + int (i - k)) [Suc k..<filter_len]"
    by (rule map_cong) auto
  have u: "[k..<filter_len] = k # [Suc k..<filter_len]"
    using lt by (simp add: upt_conv_Cons)
  have o: "j + 1 + int (filter_len - Suc k) = j + int (filter_len - k)"
    using lt by simp
  show ?case
    unfolding s using IH by (simp add: b' t m u o)
qed

text \<open>
  After the loop, entry \<open>k\<close> of the array holds \<open>j_start L + k\<close> for every \<open>k < L\<close>,
  whatever the array held before; and exactly one write went to index \<open>L\<close>, one behind the
  last entry.
\<close>

lemma j_host_buffer_result:
  "cells (j_host_buffer L garbage) = map (\<lambda>k. j_start L + int k) [0..<L]"
  "out_of_bounds (j_host_buffer L garbage) = [(L, j_start L + int L)]"
  using fill_j_result
    [of "\<lparr>cells = take L (garbage @ replicate L 0), out_of_bounds = []\<rparr>" L 0 "j_start L"]
  by (simp_all add: j_host_buffer_def)

lemma j_start_eq: "2 \<le> L \<Longrightarrow> j_start L = - ((int L - 2) div 2)"
  by (simp add: j_start_def c_div_def sgn_if)

lemma filter_length_eq:
  assumes "0 < n"
  shows "filter_length n = 2 * 2 ^ nat \<lceil>log 2 (real n)\<rceil>"
proof -
  have "0 \<le> log 2 (real n)" using assms by simp
  then have c: "0 \<le> \<lceil>log 2 (real n)\<rceil>" by linarith
  have "2 powr real_of_int \<lceil>log 2 (real n)\<rceil> = (2::real) ^ nat \<lceil>log 2 (real n)\<rceil>"
    using c by (simp add: powr_real_of_int)
  then have "2 * 2 powr real_of_int \<lceil>log 2 (real n)\<rceil> = real (2 * 2 ^ nat \<lceil>log 2 (real n)\<rceil>)"
    by simp
  moreover have "float_to_unsigned (real m) = m" for m
    by (simp add: float_to_unsigned_def)
  ultimately show ?thesis
    using assms by (simp only: filter_length_def) simp
qed

lemma filter_length_pow2: "filter_length (2 ^ e) = 2 * 2 ^ e"
proof -
  have "log 2 (real ((2::nat) ^ e)) = real e" by simp
  then have "\<lceil>log 2 (real ((2::nat) ^ e))\<rceil> = int e" by simp
  then show ?thesis using filter_length_eq [of "2 ^ e"] by simp
qed

text \<open>
  Claim C10 does not hold of the code. For a detector of 32 columns the filter has the
  length \<open>L = 64\<close>, the array \<^verbatim>\<open>j_host_buffer\<close> has the indices \<open>0 \<dots> 63\<close>, and the loop,
  whose condition is \<^verbatim>\<open>k <= filter_length_\<close>, writes the value 33 at index 64.
\<close>

theorem j_host_buffer_overrun:
  "filter_length 32 = 64 \<and> out_of_bounds (j_host_buffer 64 []) = [(64, 33)]"
  using filter_length_pow2 [of 5]
  by (simp add: j_host_buffer_result j_start_def c_div_def)

lemma createFilter_thread_even: "createFilter_thread j tau = createFilter_thread (- j) tau"
  by (simp add: createFilter_thread_def c_mod_def sgn_if)

lemma c_mod_2: "c_mod j 2 = 0 \<longleftrightarrow> even j"
  by (auto simp: c_mod_def sgn_if)

text \<open>
  Claim C3. For a detector with at least one column, with
  \<open>L = 2 * 2 ^ \<lceil>log\<^sub>2 n_col\<rceil>\<close> and \<open>\<tau>\<close> the horizontal pixel size: the filter has \<open>L\<close>
  entries; entry \<open>k\<close> belongs to the index \<open>j = -(L - 2) / 2 + k\<close>, which runs from
  \<open>-(L - 2) / 2\<close> to \<open>L / 2\<close>; its value is \<open>1 / (8 \<tau>\<^sup>2)\<close> for \<open>j = 0\<close>, \<open>0\<close> for even
  \<open>j \<noteq> 0\<close> and \<open>- 1 / (2 j\<^sup>2 \<pi>\<^sup>2 \<tau>\<^sup>2)\<close> for odd \<open>j\<close>; and two entries whose indices are
  \<open>j\<close> and \<open>- j\<close> are equal. (Computed over the reals.)
\<close>

theorem filter_values:
  assumes "0 < det_pixels_column geo"
  defines "L \<equiv> filter_length (det_pixels_column geo)"
      and "tau \<equiv> det_pixel_size_horiz geo"
  shows "L = 2 * 2 ^ nat \<lceil>log 2 (real (det_pixels_column geo))\<rceil>
       \<and> length (filter_r geo garbage) = L
       \<and> (\<forall>k<L. \<forall>j. j = - ((int L - 2) div 2) + int k \<longrightarrow>
             - ((int L - 2) div 2) \<le> j \<and> j \<le> int L div 2 \<and>
             filter_r geo garbage ! k
               = (if j = 0 then 1 / (8 * tau\<^sup>2)
                  else if even j then 0
                  else - 1 / (2 * (real_of_int j)\<^sup>2 * pi\<^sup>2 * tau\<^sup>2)))
       \<and> (\<forall>k<L. \<forall>k'<L. - ((int L - 2) div 2) + int k' = - (- ((int L - 2) div 2) + int k)
             \<longrightarrow> filter_r geo garbage ! k' = filter_r geo garbage ! k)"
proof -
  have L: "L = 2 * 2 ^ nat \<lceil>log 2 (real (det_pixels_column geo))\<rceil>"
    unfolding L_def by (rule filter_length_eq [OF assms(1)])
  then have L2: "2 \<le> L" by simp
  have evenL: "even L" using L by simp
  have js: "j_start L = - ((int L - 2) div 2)" by (rule j_start_eq [OF L2])
  have r: "filter_r geo garbage
            = map (\<lambda>k. createFilter_thread (- ((int L - 2) div 2) + int k) tau) [0..<L]"
    by (simp add: filter_r_def Let_def L_def [symmetric] tau_def [symmetric] createFilter_def
          j_host_buffer_result js)
  have len: "length (filter_r geo garbage) = L" by (simp add: r)
  have nth: "filter_r geo garbage ! k = createFilter_thread (- ((int L - 2) div 2) + int k) tau"
    if "k < L" for k using that by (simp add: r)
  have v: "createFilter_thread j tau
             = (if j = 0 then 1 / (8 * tau\<^sup>2)
                else if even j then 0
                else - 1 / (2 * (real_of_int j)\<^sup>2 * pi\<^sup>2 * tau\<^sup>2))" for j
    by (simp add: createFilter_thread_def c_mod_2)
  have rng: "- ((int L - 2) div 2) \<le> - ((int L - 2) div 2) + int k
             \<and> - ((int L - 2) div 2) + int k \<le> int L div 2" if "k < L" for k
    using that evenL L2 by (auto elim!: evenE)
  have vals: "\<forall>k<L. \<forall>j. j = - ((int L - 2) div 2) + int k \<longrightarrow>
             - ((int L - 2) div 2) \<le> j \<and> j \<le> int L div 2 \<and>
             filter_r geo garbage ! k
               = (if j = 0 then 1 / (8 * tau\<^sup>2)
                  else if even j then 0
                  else - 1 / (2 * (real_of_int j)\<^sup>2 * pi\<^sup>2 * tau\<^sup>2))"
  proof (intro allI impI)
    fix k j assume k: "k < L" and j: "j = - ((int L - 2) div 2) + int k"
    show "- ((int L - 2) div 2) \<le> j \<and> j \<le> int L div 2 \<and>
             filter_r geo garbage ! k
               = (if j = 0 then 1 / (8 * tau\<^sup>2)
                  else if even j then 0
                  else - 1 / (2 * (real_of_int j)\<^sup>2 * pi\<^sup>2 * tau\<^sup>2))"
      unfolding j using rng [OF k] nth [OF k] v by presburger
  qed
  have sym: "\<forall>k<L. \<forall>k'<L. - ((int L - 2) div 2) + int k' = - (- ((int L - 2) div 2) + int k)
             \<longrightarrow> filter_r geo garbage ! k' = filter_r geo garbage ! k"
  proof (intro allI impI)
    fix k k' assume k: "k < L" and k': "k' < L"
      and e: "- ((int L - 2) div 2) + int k' = - (- ((int L - 2) div 2) + int k)"
    show "filter_r geo garbage ! k' = filter_r geo garbage ! k"
      unfolding nth [OF k] nth [OF k'] e
      by (rule createFilter_thread_even [symmetric])
  qed
  from L len vals sym show ?thesis by (intro conjI)
qed

text \<open>The witness: 4 columns of one millimetre, \<open>L = 8\<close>, \<open>j = k - 3\<close>.\<close>

theorem filter_values_witness:
  "0 < det_pixels_column filter_example
   \<and> filter_length (det_pixels_column filter_example) = 8
   \<and> length (filter_r filter_example []) = 8
   \<and> filter_r filter_example [] ! 3 = 1 / 8
   \<and> filter_r filter_example [] ! 4 = - 1 / (2 * pi\<^sup>2)
   \<and> filter_r filter_example [] ! 5 = 0
   \<and> filter_r filter_example [] ! 2 = filter_r filter_example [] ! 4"
proof -
  have h: "0 < det_pixels_column filter_example" by (simp add: filter_example_def)
  have L: "filter_length (det_pixels_column filter_example) = 8"
    using filter_length_pow2 [of 2] by (simp add: filter_example_def)
  have tau: "det_pixel_size_horiz filter_example = 1" by (simp add: filter_example_def)
  note t = filter_values [OF h, of "[]", unfolded L tau]
  from t have len: "length (filter_r filter_example []) = 8" by blast
  from t have vals: "\<And>k j. k < 8 \<Longrightarrow> j = - ((int 8 - 2) div 2) + int k \<Longrightarrow>
       filter_r filter_example [] ! k
         = (if j = 0 then 1 / (8 * 1\<^sup>2) else if even j then 0
            else - 1 / (2 * (real_of_int j)\<^sup>2 * pi\<^sup>2 * 1\<^sup>2))" by blast
  from t have sym: "\<And>k k'. k < 8 \<Longrightarrow> k' < 8 \<Longrightarrow>
       - ((int 8 - 2) div 2) + int k' = - (- ((int 8 - 2) div 2) + int k) \<Longrightarrow>
       filter_r filter_example [] ! k' = filter_r filter_example [] ! k" by blast
  have v3: "filter_r filter_example [] ! 3 = 1 / 8" using vals [of 3 0] by simp
  have v4: "filter_r filter_example [] ! 4 = - 1 / (2 * pi\<^sup>2)" using vals [of 4 1] by simp
  have v5: "filter_r filter_example [] ! 5 = 0" using vals [of 5 2] by simp
  have s24: "filter_r filter_example [] ! 2 = filter_r filter_example [] ! 4"
    using sym [of 4 2] by simp
  from h L len v3 v4 v5 s24 show ?thesis by (intro conjI)
qed

section \<open>Properties of the weighting stage\<close>

text \<open>
  The threads of a launch are pairwise different, and a thread changes its own pixel only:
  after the launch every pixel inside the projection has been weighted exactly once.
\<close>

lemma distinct_launch_threads: "distinct (launch_threads gx gy)"
  by (simp add: launch_threads_def distinct_product)

lemma set_launch_threads: "set (launch_threads gx gy) = {(s, t). s < gx \<and> t < gy}"
  by (auto simp: launch_threads_def)

lemma fold_weighting_kernel:
  assumes "distinct ths"
  shows "fold (\<lambda>st img. weighting_kernel img rows cols h_min v_min d_sd px_row px_col st) ths img t s
         = (if (s, t) \<in> set ths \<and> s < rows \<and> t < cols
            then img t s * (d_sd * (1 / sqrt (d_sd\<^sup>2
                   + ((px_row / 2) + real s * px_row + h_min)\<^sup>2
                   + ((px_col / 2) + real t * px_col + v_min)\<^sup>2)))
            else img t s)"
  using assms
proof (induction ths arbitrary: img)
  case Nil
  show ?case by simp
next
  case (Cons th ths)
  obtain s' t' where th: "th = (s', t')" by (cases th)
  from Cons.prems have d: "distinct ths" and n: "th \<notin> set ths" by simp_all
  let ?img = "weighting_kernel img rows cols h_min v_min d_sd px_row px_col th"
  have other: "?img t s = img t s" if "(s, t) \<noteq> th"
    using that by (auto simp: weighting_kernel_def th Let_def)
  have same: "?img t' s' = (if s' < rows \<and> t' < cols
            then img t' s' * (d_sd * (1 / sqrt (d_sd\<^sup>2
                   + ((px_row / 2) + real s' * px_row + h_min)\<^sup>2
                   + ((px_col / 2) + real t' * px_col + v_min)\<^sup>2)))
            else img t' s')"
    by (simp add: weighting_kernel_def th Let_def)
  show ?case
  proof (cases "(s, t) = th")
    case True
    then have st: "s = s'" "t = t'" using th by simp_all
    have "(s, t) \<notin> set ths" using n True by simp
    then show ?thesis
      using Cons.IH [OF d, of ?img] True same st by simp
  next
    case False
    then show ?thesis
      using Cons.IH [OF d, of ?img] other [OF False] by simp
  qed
qed

text \<open>
  Claim C2. For a projection of the detector's size (\<open>width = n_row\<close>, \<open>height = n_col\<close>)
  and a launch grid that covers it, the weighting stage replaces the pixel in row \<open>t\<close> and
  column \<open>s\<close>, for \<open>s < n_row\<close> and \<open>t < n_col\<close>, by the pixel times
  \<open>w = d_sd / sqrt (d_sd\<^sup>2 + h_s\<^sup>2 + v_t\<^sup>2)\<close> with
  \<open>h_s = l_px_row / 2 + s * l_px_row + h_min\<close>, \<open>v_t = l_px_col / 2 + t * l_px_col + v_min\<close>,
  \<open>h_min = \<Delta>s * l_px_row - n_row * l_px_row / 2\<close>,
  \<open>v_min = \<Delta>t * l_px_col - n_col * l_px_col / 2\<close> and \<open>d_sd = |d_so| + |d_od|\<close>; every
  other cell of the buffer is unchanged. (Computed over the reals.)
\<close>

theorem weighting_stage_weights:
  assumes "width p = n_row g" and "height p = n_col g"
      and "width p \<le> gx" and "height p \<le> gy"
  defines "h_min \<equiv> delta_s g * l_px_row g - real (n_row g) * l_px_row g / 2"
      and "v_min \<equiv> delta_t g * l_px_col g - real (n_col g) * l_px_col g / 2"
      and "d_sd \<equiv> \<bar>d_so g\<bar> + \<bar>d_od g\<bar>"
  shows "ptr (weighting_stage_run (assign_task g) gx gy p) t s
         = (if s < n_row g \<and> t < n_col g
            then ptr p t s * (d_sd / sqrt (d_sd\<^sup>2
                   + (l_px_row g / 2 + real s * l_px_row g + h_min)\<^sup>2
                   + (l_px_col g / 2 + real t * l_px_col g + v_min)\<^sup>2))
            else ptr p t s)"
proof -
  have "(s, t) \<in> set (launch_threads gx gy)" if "s < n_row g" "t < n_col g"
    using that assms(1-4) by (simp add: set_launch_threads)
  then show ?thesis
    unfolding weighting_stage_run_def weight_def assign_task_def Let_def
    using assms(1,2)
    by (simp add: fold_weighting_kernel [OF distinct_launch_threads]
          h_min_def v_min_def d_sd_def)
qed

text \<open>The witness: the detector of scenario S1 and a projection of ones; the pixel in
  the corner gets the weight \<open>200 / sqrt (200\<^sup>2 + (31 / 2)\<^sup>2 + (31 / 2)\<^sup>2)\<close>.\<close>

theorem weighting_stage_weights_witness:
  "width ones_projection = n_row s1_det_geo \<and> height ones_projection = n_col s1_det_geo
   \<and> width ones_projection \<le> 32 \<and> height ones_projection \<le> 48
   \<and> ptr (weighting_stage_run (assign_task s1_det_geo) 32 48 ones_projection) 0 0
       = 200 / sqrt (200\<^sup>2 + (31 / 2)\<^sup>2 + (31 / 2)\<^sup>2)
   \<and> ptr (weighting_stage_run (assign_task s1_det_geo) 32 48 ones_projection) 40 0 = 1"
  using weighting_stage_weights [of ones_projection s1_det_geo 32 48 0 0]
        weighting_stage_weights [of ones_projection s1_det_geo 32 48 40 0]
  by (simp add: ones_projection_def s1_det_geo_def power2_eq_square)

text \<open>
  The older \<^verbatim>\<open>CUDAWeighting\<close> applies the same weight with its own constants:
  \<open>h_min = - \<Delta>s * l_px_row - n_row * l_px_row / 2\<close> (the offset enters with the opposite
  sign) and \<open>d_sd = d_od + d_so\<close> (without absolute values). It agrees with the weighting
  stage for a detector without offset and non-negative distances.
\<close>

lemma CUDAWeighting_weights:
  assumes "width p \<le> gx" and "height p \<le> gy"
  shows "ptr (CUDAWeighting_process geo gx gy p) t s
         = (if s < width p \<and> t < height p
            then ptr p t s * (CUDAWeighting_d_dist geo / sqrt ((CUDAWeighting_d_dist geo)\<^sup>2
                   + (det_pixel_size_horiz geo / 2 + real s * det_pixel_size_horiz geo
                        + CUDAWeighting_h_min geo)\<^sup>2
                   + (det_pixel_size_vert geo / 2 + real t * det_pixel_size_vert geo
                        + CUDAWeighting_v_min geo)\<^sup>2))
            else ptr p t s)"
proof -
  have "(s, t) \<in> set (launch_threads gx gy)" if "s < width p" "t < height p"
    using that assms by (simp add: set_launch_threads)
  then show ?thesis
    unfolding CUDAWeighting_process_def weight_def
    by (simp add: fold_weighting_kernel [OF distinct_launch_threads])
qed

section \<open>Properties of the sub-projection borders\<close>

text \<open>
  The radius \<open>r_max\<close> of the volume is smaller than the distance of the source: it is at
  most \<open>r = |d_so| sin \<alpha>\<close>, and \<open>0 < sin \<alpha> < 1\<close> for \<open>\<alpha> = arctan x\<close> with \<open>x > 0\<close>.
\<close>

lemma sin_arctan_bounds:
  assumes "0 < x"
  shows "0 < sin (arctan x)" and "sin (arctan x) < 1"
proof -
  have s: "0 < sqrt (1 + x\<^sup>2)" by (simp add: add_pos_nonneg)
  show "0 < sin (arctan x)" using assms s by (simp add: sin_arctan)
  have "x\<^sup>2 < 1 + x\<^sup>2" by simp
  then have "x < sqrt (1 + x\<^sup>2)" by (rule real_less_rsqrt)
  then show "sin (arctan x) < 1" using s by (simp add: sin_arctan)
qed

lemma r_max_bounds:
  assumes "valid_geometry geo"
  defines "vol_geo \<equiv> calculate_volume_geo geo"
  shows "0 \<le> (real (VolumeGeometry.dim_x vol_geo) * voxel_size_x vol_geo) / 2"
    and "(real (VolumeGeometry.dim_x vol_geo) * voxel_size_x vol_geo) / 2 < \<bar>dist_src geo\<bar>"
    and "0 < voxel_size_z vol_geo"
proof -
  define a where "a = ((real (det_pixels_row geo) * det_pixel_size_horiz geo) / 2)
                       + \<bar>det_offset_horiz geo * det_pixel_size_horiz geo\<bar>"
  define r where "r = \<bar>dist_src geo\<bar> * sin (arctan (a / dist_sd geo))"
  define vx where "vx = r / (a / det_pixel_size_horiz geo)"
  from assms(1) have v: "0 < det_pixels_row geo" "0 < det_pixel_size_horiz geo" "dist_src geo \<noteq> 0"
    by (simp_all add: valid_geometry_def)
  have a: "0 < a" unfolding a_def using v by (simp add: add_pos_nonneg)
  have D: "0 < \<bar>dist_src geo\<bar>" using v by simp
  have sd: "0 < dist_sd geo" unfolding dist_sd_def using D by linarith
  have x: "0 < a / dist_sd geo" using a sd by simp
  have r0: "0 < r" unfolding r_def using D sin_arctan_bounds(1) [OF x] by simp
  have r1: "r < \<bar>dist_src geo\<bar>"
    unfolding r_def using D sin_arctan_bounds(2) [OF x] by simp
  have vx0: "0 < vx" unfolding vx_def using r0 a v by simp
  have geo: "VolumeGeometry.dim_x vol_geo = float_to_unsigned ((2 * r) / vx)"
            "voxel_size_x vol_geo = vx" "voxel_size_z vol_geo = vx"
    unfolding vol_geo_def calculate_volume_geo_def Let_def a_def r_def vx_def by simp_all
  have q: "0 \<le> (2 * r) / vx" using r0 vx0 by simp
  have "real (float_to_unsigned ((2 * r) / vx)) \<le> (2 * r) / vx"
    unfolding float_to_unsigned_def using q by simp
  then have "real (float_to_unsigned ((2 * r) / vx)) * vx \<le> 2 * r"
    using vx0 by (simp add: pos_le_divide_eq)
  then show "(real (VolumeGeometry.dim_x vol_geo) * voxel_size_x vol_geo) / 2 < \<bar>dist_src geo\<bar>"
    unfolding geo using r1 by simp
  show "0 \<le> (real (VolumeGeometry.dim_x vol_geo) * voxel_size_x vol_geo) / 2"
    unfolding geo using vx0 by simp
  show "0 < voxel_size_z vol_geo" unfolding geo by (rule vx0)
qed

text \<open>
  The virtual projections keep the order of \<open>top \<le> bottom\<close>; both are clamped to the same
  interval and converted to rows by the same increasing map, \<open>floor\<close> for the top and
  \<open>ceil\<close> for the bottom.
\<close>

lemma virt_order:
  fixes top bottom D r s :: real
  assumes "top \<le> bottom" and "0 \<le> r" and "r < D" and "0 < s"
  shows "top * s / (D + (if top < 0 then - r else r))
         \<le> bottom * s / (D + (if bottom < 0 then r else - r))"
proof -
  have m: "0 < D - r" and p: "0 < D + r" using assms by linarith+
  have mp: "D - r \<le> D + r" using assms by linarith
  consider "bottom < 0" | "top < 0" "0 \<le> bottom" | "0 \<le> top" using assms(1) by linarith
  then show ?thesis
  proof cases
    case 1
    then have t: "top < 0" using assms(1) by linarith
    have "top * s / (D - r) \<le> top * s / (D + r)"
    proof -
      have "top * s \<le> 0" using t assms(4) by (simp add: mult_nonpos_nonneg)
      then have "- (top * s) / (D + r) \<le> - (top * s) / (D - r)"
        using m mp by (intro divide_left_mono) (simp_all add: p)
      then show ?thesis by simp
    qed
    also have "\<dots> \<le> bottom * s / (D + r)"
      using assms(1,4) p by (simp add: divide_right_mono mult_right_mono)
    finally show ?thesis using 1 t by simp
  next
    case 2
    have "top * s / (D - r) \<le> 0"
      using 2 m assms(4) by (simp add: divide_nonpos_pos mult_nonpos_nonneg)
    also have "0 \<le> bottom * s / (D - r)"
      using 2 m assms(4) by simp
    finally show ?thesis using 2 by simp
  next
    case 3
    then have b: "0 \<le> bottom" using assms(1) by linarith
    have "top * s / (D + r) \<le> bottom * s / (D + r)"
      using assms(1,4) p by (simp add: divide_right_mono mult_right_mono)
    also have "\<dots> \<le> bottom * s / (D - r)"
      using b assms(4) m mp by (intro divide_left_mono) (simp_all add: p)
    finally show ?thesis using 3 b by simp
  qed
qed

lemma subprojection_border_bounds:
  assumes Nv: "0 < det_pixels_column geo" and dv: "0 < det_pixel_size_vert geo"
      and H: "0 \<le> volume_height"
      and r0: "0 \<le> (real (VolumeGeometry.dim_x vol_geo) * voxel_size_x vol_geo) / 2"
      and r1: "(real (VolumeGeometry.dim_x vol_geo) * voxel_size_x vol_geo) / 2 < \<bar>dist_src geo\<bar>"
      and N: "0 < N"
  shows "fst (subprojection_border geo vol_geo volume_height N n)
           \<le> snd (subprojection_border geo vol_geo volume_height N n)"
    and "snd (subprojection_border geo vol_geo volume_height N n) \<le> det_pixels_column geo - 1"
proof -
  define delta_v where "delta_v = det_offset_vert geo * det_pixel_size_vert geo"
  define d_v where "d_v = det_pixel_size_vert geo"
  define N_v where "N_v = real (det_pixels_column geo)"
  define r_max where "r_max = (real (VolumeGeometry.dim_x vol_geo) * voxel_size_x vol_geo) / 2"
  define top where "top = - (volume_height / 2) + (real n / real N) * volume_height"
  define bottom where "bottom = - (volume_height / 2) + (real (n + 1) / real N) * volume_height"
  define top_proj_virt where
    "top_proj_virt = top * dist_sd geo / (\<bar>dist_src geo\<bar> + (if top < 0 then - r_max else r_max))"
  define bottom_proj_virt where
    "bottom_proj_virt
       = bottom * dist_sd geo / (\<bar>dist_src geo\<bar> + (if bottom < 0 then r_max else - r_max))"
  define top_proj_real where "top_proj_real = 0 - ((N_v * d_v) / 2) - delta_v + (d_v / 2)"
  define bottom_proj_real where "bottom_proj_real = top_proj_real + N_v * d_v - d_v"
  define top_proj where
    "top_proj = (if top_proj_virt > bottom_proj_real then bottom_proj_real
                 else if top_proj_virt < top_proj_real then top_proj_real
                 else top_proj_virt)"
  define bottom_proj where
    "bottom_proj = (if bottom_proj_virt < top_proj_real then top_proj_real
                    else if bottom_proj_virt > bottom_proj_real then bottom_proj_real
                    else bottom_proj_virt)"
  define a where "a = (((top_proj) + ((N_v * d_v) / 2) + delta_v) / d_v) - (1 / 2)"
  define b where "b = (((bottom_proj) + ((N_v * d_v) / 2) + delta_v) / d_v) - (1 / 2)"
  define start_row where
    "start_row = (if real_of_int \<lfloor>a\<rfloor> < 0 then 0 else real_of_int \<lfloor>a\<rfloor>)"
  define bottom_row where
    "bottom_row = (if real_of_int \<lceil>b\<rceil> \<ge> N_v then N_v - 1 else real_of_int \<lceil>b\<rceil>)"
  have eq: "subprojection_border geo vol_geo volume_height N n
              = (float_to_unsigned start_row, float_to_unsigned bottom_row)"
    unfolding subprojection_border_def Let_def start_row_def bottom_row_def a_def b_def
      top_proj_def bottom_proj_def bottom_proj_real_def top_proj_real_def
      top_proj_virt_def bottom_proj_virt_def top_def bottom_def r_max_def N_v_def d_v_def
      delta_v_def ..
  have dv': "0 < d_v" using dv by (simp add: d_v_def)
  have Nv': "1 \<le> N_v" using Nv by (simp add: N_v_def)
  have D: "0 < \<bar>dist_src geo\<bar>" using r0 r1 by linarith
  have sd: "0 < dist_sd geo" unfolding dist_sd_def using D by linarith
  have tb: "top \<le> bottom"
  proof -
    have "real n / real N \<le> real (n + 1) / real N" using N by (simp add: divide_right_mono)
    then have "(real n / real N) * volume_height \<le> (real (n + 1) / real N) * volume_height"
      using H by (rule mult_right_mono)
    then show ?thesis by (simp add: top_def bottom_def)
  qed
  have virt: "top_proj_virt \<le> bottom_proj_virt"
    unfolding top_proj_virt_def bottom_proj_virt_def
    using virt_order [OF tb _ _ sd, of r_max "\<bar>dist_src geo\<bar>"] r0 r1
    by (simp add: r_max_def)
  have real_le: "top_proj_real \<le> bottom_proj_real"
  proof -
    have "0 \<le> (N_v - 1) * d_v" using Nv' dv' by simp
    then show ?thesis by (simp add: bottom_proj_real_def algebra_simps)
  qed
  have tp: "top_proj_real \<le> top_proj" "top_proj \<le> bottom_proj_real"
    using real_le by (auto simp: top_proj_def)
  have bp: "top_proj_real \<le> bottom_proj" "bottom_proj \<le> bottom_proj_real"
    using real_le by (auto simp: bottom_proj_def)
  have tpbp: "top_proj \<le> bottom_proj"
    using virt real_le by (auto simp: top_proj_def bottom_proj_def)
  have conv: "((y + ((N_v * d_v) / 2) + delta_v) / d_v) - (1 / 2)
                = (y - top_proj_real) / d_v" for y
    using dv' by (simp add: top_proj_real_def field_simps)
  have a0: "0 \<le> a" unfolding a_def conv using tp(1) dv' by simp
  have b0: "0 \<le> b" unfolding b_def conv using bp(1) dv' by simp
  have ab: "a \<le> b" unfolding a_def b_def conv using tpbp dv' by (simp add: divide_right_mono)
  have "bottom_proj - top_proj_real \<le> (N_v - 1) * d_v"
    using bp(2) by (simp add: bottom_proj_real_def algebra_simps)
  then have b1: "b \<le> N_v - 1" unfolding b_def conv using dv' by (simp add: pos_divide_le_eq)
  have fa: "0 \<le> \<lfloor>a\<rfloor>" using a0 by simp
  have cb: "\<lceil>b\<rceil> \<le> int (det_pixels_column geo) - 1"
  proof -
    have "b \<le> real_of_int (int (det_pixels_column geo) - 1)" using b1 by (simp add: N_v_def)
    then show ?thesis by (simp only: ceiling_le_iff)
  qed
  have fc: "\<lfloor>a\<rfloor> \<le> \<lceil>b\<rceil>"
  proof -
    have "real_of_int \<lfloor>a\<rfloor> \<le> a" by simp
    also have "a \<le> b" by (rule ab)
    also have "b \<le> real_of_int \<lceil>b\<rceil>" by simp
    finally show ?thesis by simp
  qed
  have sr: "float_to_unsigned start_row = nat \<lfloor>a\<rfloor>"
    using fa by (simp add: start_row_def float_to_unsigned_def)
  have "real_of_int \<lceil>b\<rceil> < N_v" using cb unfolding N_v_def
    by (metis of_int_less_iff of_int_of_nat_eq zle_diff1_eq)
  then have br: "float_to_unsigned bottom_row = nat \<lceil>b\<rceil>"
    by (simp add: bottom_row_def float_to_unsigned_def)
  show "fst (subprojection_border geo vol_geo volume_height N n)
           \<le> snd (subprojection_border geo vol_geo volume_height N n)"
    unfolding eq sr br using fc by simp
  have "nat \<lceil>b\<rceil> \<le> nat (int (det_pixels_column geo) - 1)"
    using cb by (rule nat_mono)
  also have "nat (int (det_pixels_column geo) - 1) = det_pixels_column geo - 1"
    by (simp add: nat_diff_distrib')
  finally show "snd (subprojection_border geo vol_geo volume_height N n)
                  \<le> det_pixels_column geo - 1"
    unfolding eq br by simp
qed

text \<open>
  Claim C5. For every valid detector geometry, every total chunk count \<open>N\<close> and every
  sub-volume \<open>n < N\<close>, the row bounds that the scheduler computes satisfy
  \<open>0 \<le> row_top \<le> row_bottom \<le> n_col - 1\<close>, where \<open>n_col\<close> is the number of detector rows
  \<^verbatim>\<open>det_pixels_column\<close>. (Computed over the reals.)
\<close>

theorem subprojection_rows_bounded:
  assumes "valid_geometry geo" and "n < N"
  shows "0 \<le> fst (scheduler_subproj_dims geo N n)
       \<and> fst (scheduler_subproj_dims geo N n) \<le> snd (scheduler_subproj_dims geo N n)
       \<and> snd (scheduler_subproj_dims geo N n) \<le> det_pixels_column geo - 1"
proof -
  let ?vg = "calculate_volume_geo geo"
  from assms(1) have v: "0 < det_pixels_column geo" "0 < det_pixel_size_vert geo"
    by (simp_all add: valid_geometry_def)
  have H: "0 \<le> calculate_volume_height_mm ?vg"
    using r_max_bounds(3) [OF assms(1)] by (simp add: calculate_volume_height_mm_def)
  have N: "0 < N" using assms(2) by simp
  note b = subprojection_border_bounds [OF v H r_max_bounds(1,2) [OF assms(1)] N, of n]
  show ?thesis
    unfolding scheduler_subproj_dims_def Let_def using b by simp
qed

theorem subprojection_rows_bounded_witness:
  "valid_geometry s1_geo \<and> (1::nat) < 4
   \<and> 0 \<le> fst (scheduler_subproj_dims s1_geo 4 1)
   \<and> fst (scheduler_subproj_dims s1_geo 4 1) \<le> snd (scheduler_subproj_dims s1_geo 4 1)
   \<and> snd (scheduler_subproj_dims s1_geo 4 1) \<le> det_pixels_column s1_geo - 1"
proof -
  have h: "valid_geometry s1_geo" by (simp add: valid_geometry_def s1_geo_def)
  have n: "(1::nat) < 4" by simp
  from subprojection_rows_bounded [OF h n] h n show ?thesis by (intro conjI) simp_all
qed

section \<open>Properties of the bilinear interpolation\<close>

lemma proj_real_coordinate_example:
  "proj_real_coordinate (Fin (- (5 / 2))) 4 (Fin 1) (Fin 0) = Fin (- 1)"
  "proj_real_coordinate (Fin 0) 4 (Fin 1) (Fin 0) = Fin (3 / 2)"
  by (simp_all add: proj_real_coordinate_def fsub_def to_float_def)

text \<open>
  Claim C4 does not hold of the code. On a detector of \<open>4 \<times> 4\<close> pixels of 1 mm without
  offset, the sample \<open>h = -2.5\<close> mm, \<open>v = 0\<close> has the pixel coordinates \<open>(-1, 1.5)\<close>:
  \<^verbatim>\<open>floorf\<close> and \<^verbatim>\<open>ceilf\<close> of the horizontal coordinate are both \<open>-1\<close>, outside of
  \<open>[0, 4)\<close>, so all four corners fail the bounds check. The weight
  \<^verbatim>\<open>w_h0 = (h_real - h_j0) / (h_j1 - h_j0)\<close> is \<open>0 / 0\<close>, and the interpolation returns NaN,
  not \<open>0\<close>. The kernel adds it to the voxel: for a volume of \<open>2 \<times> 2 \<times> 2\<close> voxels of 1 mm, a
  detector of one pixel of 1 mm, the source at 0.5 mm and \<open>d_sd = 2\<close> mm, angle 0, the
  sample of voxel \<open>(0, 0, 0)\<close> has the pixel coordinates \<open>(1, 1)\<close>, outside of the detector,
  and the voxel becomes NaN although the projection is all zero.
\<close>

theorem interpolate_outside_nan:
  "interpolate (Fin (- (5 / 2))) (Fin 0) zero_image 4 4 (Fin 1) (Fin 1) (Fin 0) (Fin 0) = NaN
   \<and> backproject (Fin 0) 0 0 0 2 2 2 (Fin 1) (Fin 1) (Fin 1) zero_image 1 1
         (Fin 1) (Fin 1) (Fin 0) (Fin 0) (Fin 0) (Fin 1) (Fin (1 / 2)) (Fin 2) = NaN"
proof -
  have "interpolate (Fin (- (5 / 2))) (Fin 0) zero_image 4 4 (Fin 1) (Fin 1) (Fin 0) (Fin 0) = NaN"
    by (simp add: interpolate_def proj_real_coordinate_example fsub_def Let_def)
  moreover have "backproject (Fin 0) 0 0 0 2 2 2 (Fin 1) (Fin 1) (Fin 1) zero_image 1 1
         (Fin 1) (Fin 1) (Fin 0) (Fin 0) (Fin 0) (Fin 1) (Fin (1 / 2)) (Fin 2) = NaN"
    by (simp add: backproject_def vol_centered_coordinate_def interpolate_def
          proj_real_coordinate_def fsub_def to_float_def Let_def)
  ultimately show ?thesis by (rule conjI)
qed

text \<open>
  What does hold: a sample whose pixel coordinates are finite and not integral has finite
  weights. If both of its columns or both of its rows lie outside of the detector, the
  interpolation returns exactly \<open>0\<close>, whatever the projection holds; and on a projection of
  zeros it returns \<open>0\<close> wherever the sample lies.
\<close>

lemma non_int_ceiling:
  fixes a :: real
  assumes "a \<notin> \<int>"
  shows "real_of_int \<lceil>a\<rceil> - real_of_int \<lfloor>a\<rfloor> = 1"
proof -
  have "a \<noteq> of_int \<lfloor>a\<rfloor>" using assms by (metis Ints_of_int)
  then show ?thesis by (simp add: ceiling_altdef)
qed

lemma interpolate_zero_image:
  assumes h: "proj_real_coordinate h proj_width pixel_size_x offset_x = Fin a"
      and v: "proj_real_coordinate v proj_height pixel_size_y offset_y = Fin b"
      and a: "a \<notin> \<int>" and b: "b \<notin> \<int>"
  shows "interpolate h v zero_image proj_width proj_height pixel_size_x pixel_size_y
           offset_x offset_y = Fin 0"
  unfolding interpolate_def h v Let_def
  by (simp add: fsub_def non_int_ceiling [OF a] non_int_ceiling [OF b] zero_image_def)

lemma interpolate_outside:
  assumes h: "proj_real_coordinate h proj_width pixel_size_x offset_x = Fin a"
      and v: "proj_real_coordinate v proj_height pixel_size_y offset_y = Fin b"
      and a: "a \<notin> \<int>" and b: "b \<notin> \<int>"
      and out: "\<lceil>a\<rceil> < 0 \<or> int proj_width \<le> \<lfloor>a\<rfloor> \<or> \<lceil>b\<rceil> < 0 \<or> int proj_height \<le> \<lfloor>b\<rfloor>"
  shows "interpolate h v proj proj_width proj_height pixel_size_x pixel_size_y
           offset_x offset_y = Fin 0"
proof -
  have fa: "\<lfloor>a\<rfloor> \<le> \<lceil>a\<rceil>" and fb: "\<lfloor>b\<rfloor> \<le> \<lceil>b\<rceil>" by linarith+
  have va: "\<not> (0 \<le> \<lfloor>a\<rfloor> \<and> \<lfloor>a\<rfloor> < int proj_width) \<and> \<not> (0 \<le> \<lceil>a\<rceil> \<and> \<lceil>a\<rceil> < int proj_width)
          \<or> \<not> (0 \<le> \<lfloor>b\<rfloor> \<and> \<lfloor>b\<rfloor> < int proj_height) \<and> \<not> (0 \<le> \<lceil>b\<rceil> \<and> \<lceil>b\<rceil> < int proj_height)"
    using out fa fb by linarith
  have r: "(real_of_int i < real n) = (i < int n)" for i n by linarith
  show ?thesis
    unfolding interpolate_def h v Let_def
    using va
    by (auto simp: fsub_def non_int_ceiling [OF a] non_int_ceiling [OF b] to_float_def r)
qed

section \<open>Scenario S1\<close>

















text \<open>Distance from the integers.\<close>

lemma away_from_integersI:
  assumes "real_of_int n + d \<le> a" and "a \<le> real_of_int n + 1 - d" and "0 < d"
  shows "away_from_integers d a"
proof -
  have "\<lfloor>a\<rfloor> = n" using assms by (intro floor_unique) linarith+
  then show ?thesis using assms by (simp add: away_from_integers_def)
qed




lemma away_from_integers_not_int:
  assumes "away_from_integers d a" and "0 < d"
  shows "a \<notin> \<int>"
proof
  assume "a \<in> \<int>"
  then obtain n where "a = real_of_int n" by (rule Ints_cases)
  then have "real_of_int \<lfloor>a\<rfloor> = a" by simp
  moreover from assms(1) have "real_of_int \<lfloor>a\<rfloor> + d \<le> a"
    by (simp add: away_from_integers_def)
  ultimately show False using assms(2) by linarith
qed













text \<open>
  The kernel with rounding. With functions that do not round, and the exact \<^verbatim>\<open>powf\<close>, it is
  the kernel \<^verbatim>\<open>backproject\<close> of the model without rounding.
\<close>

lemma rd_id: "rd (\<lambda>x. x) a = a"
  by (cases a) simp_all

lemma powf_2_exact: "powf_2 (\<lambda>a. a * a) u = fmul u u"
  by (cases u) simp_all

lemma backproject_rounded_exact:
  "backproject_rounded (\<lambda>i x. x) (\<lambda>a. a * a) voxel k l m vol_w vol_h vol_d
     vx_size_x vx_size_y vx_size_z
     proj proj_w proj_h pixel_size_x pixel_size_y pixel_offset_x pixel_offset_y
     angle_sin angle_cos d_src d_sd
   = backproject voxel k l m vol_w vol_h vol_d vx_size_x vx_size_y vx_size_z
     proj proj_w proj_h pixel_size_x pixel_size_y pixel_offset_x pixel_offset_y
     angle_sin angle_cos d_src d_sd"
  by (simp add: backproject_rounded_def backproject_def backproject_sample_rounded_def
        interpolate_rounded_def interpolate_def interpolate_pixel_rounded_def
        vol_centered_coordinate_rounded_def vol_centered_coordinate_def
        proj_real_coordinate_rounded_def proj_real_coordinate_def rd_id powf_2_exact Let_def)

lemma rounding_exact: "rounding (\<lambda>i x. x)"
  by (simp add: rounding_def)







text \<open>
  Rounding decides the result where a pixel coordinate is close to an integer. On a
  detector of four pixels of 1 mm the sample \<open>h = 1/2 + 1/16777216\<close> has the pixel
  coordinate \<open>2 + 1/16777216\<close>, and the kernel without rounding interpolates to \<open>0\<close> on a
  projection of zeros. Binary32 does not hold this coordinate: the sum is rounded to \<open>2\<close>,
  and the interpolation is NaN. The rounding of the lemma changes this one value only.
\<close>

lemma rounding_decides:
  "rounding (\<lambda>i x. if x = 2 + 1 / 16777216 then 2 else x)"
  "interpolate (Fin (1 / 2 + 1 / 16777216)) (Fin (1 / 4)) zero_image 4 4
     (Fin 1) (Fin 1) (Fin 0) (Fin 0) = Fin 0"
  "interpolate_rounded (\<lambda>i x. if x = 2 + 1 / 16777216 then 2 else x)
     (Fin (1 / 2 + 1 / 16777216)) (Fin (1 / 4)) zero_image 4 4
     (Fin 1) (Fin 1) (Fin 0) (Fin 0) = NaN"
proof -
  show "rounding (\<lambda>i x. if x = 2 + 1 / 16777216 then 2 else x)"
    by (simp add: rounding_def)
  have "proj_real_coordinate (Fin (1 / 2 + 1 / 16777216)) 4 (Fin 1) (Fin 0)
          = Fin (2 + 1 / 16777216)"
    and "proj_real_coordinate (Fin (1 / 4)) 4 (Fin 1) (Fin 0) = Fin (7 / 4)"
    by (simp_all add: proj_real_coordinate_def to_float_def fsub_def)
  moreover have "(2 + 1 / 16777216 :: real) \<notin> \<int>"
  proof -
    have "away_from_integers (1 / 16777216) (2 + 1 / 16777216)"
      by (rule away_from_integersI [where n = 2]) simp_all
    then show ?thesis by (rule away_from_integers_not_int) simp
  qed
  moreover have "(7 / 4 :: real) \<notin> \<int>"
  proof -
    have "away_from_integers (1 / 4) (7 / 4)"
      by (rule away_from_integersI [where n = 1]) simp_all
    then show ?thesis by (rule away_from_integers_not_int) simp
  qed
  ultimately show "interpolate (Fin (1 / 2 + 1 / 16777216)) (Fin (1 / 4)) zero_image 4 4
     (Fin 1) (Fin 1) (Fin 0) (Fin 0) = Fin 0"
    by (rule interpolate_zero_image)
  show "interpolate_rounded (\<lambda>i x. if x = 2 + 1 / 16777216 then 2 else x)
     (Fin (1 / 2 + 1 / 16777216)) (Fin (1 / 4)) zero_image 4 4
     (Fin 1) (Fin 1) (Fin 0) (Fin 0) = NaN"
    by (simp add: interpolate_rounded_def proj_real_coordinate_rounded_def
          interpolate_pixel_rounded_def to_float_def fsub_def Let_def)
qed











end
